theory Spec2Isabelle
  imports Complex_Main
begin

section \<open>Conventions of the embedding\<close>

text \<open>
  The replay engine is written in Python. Its \<open>float\<close> values are idealised as
  \<^typ>\<open>real\<close> numbers (no rounding error, no NaN), its unbounded \<open>int\<close> values are
  \<^typ>\<open>int\<close>, its dataclasses are records and its string tags are \<^typ>\<open>string\<close>s.
  Where two dataclasses of the source share a field name, the record fields carry a
  short prefix. Mutation of \<open>self\<close> is explicit state passing. Event-log text,
  CSV rows, plots and progress printing are left out; the risk-check events the
  properties speak about are kept as values of a datatype.
\<close>

datatype pyfloat = Fin real | PosInf

datatype error = ZeroDivisionError | MathDomainError

definition py_truediv :: "real \<Rightarrow> real \<Rightarrow> error + real" where
  \<comment> \<open>Python's \<open>a / b\<close> on floats: raises when the divisor is zero.\<close>
  "py_truediv a b = (if b = 0 then Inl ZeroDivisionError else Inr (a / b))"

definition py_round :: "real \<Rightarrow> int" where
  \<comment> \<open>Python's one-argument \<open>round\<close>: to the nearest integer, ties to the even one.\<close>
  "py_round x =
     (let f = \<lfloor>x\<rfloor>; d = x - of_int f
      in if d < 1 / 2 then f
         else if d > 1 / 2 then f + 1
         else if even f then f else f + 1)"

definition CONTRACT_MULTIPLIER :: real where
  "CONTRACT_MULTIPLIER = 100"

section \<open>risk/kill\_switch.py\<close>

record KillSwitchAction =
  flatten_positions :: bool
  size_factor :: real
  zone :: string
  reasons :: "string list"

record KillSwitch =
  gamma_green_threshold :: real
  gamma_red_threshold :: real
  gamma_yellow_size_factor :: real
  gamma_red_size_factor :: real
  kill_drawdown_threshold :: real

definition new_KillSwitchAction :: KillSwitchAction where
  "new_KillSwitchAction =
     \<lparr>flatten_positions = False, size_factor = 1, zone = ''green'', reasons = []\<rparr>"

definition evaluate :: "KillSwitch \<Rightarrow> real \<Rightarrow> real \<Rightarrow> KillSwitchAction" where
  "evaluate self gamma_risk total_drawdown =
     (let action = new_KillSwitchAction
      in if gamma_risk \<le> gamma_green_threshold self then
           action\<lparr>zone := ''green'', size_factor := 1\<rparr>
         else if gamma_risk \<le> gamma_red_threshold self then
           action\<lparr>zone := ''yellow'',
                  size_factor := gamma_yellow_size_factor self,
                  reasons := reasons action @ [''GAMMA_YELLOW_THROTTLE'']\<rparr>
         else
           (let action = action\<lparr>zone := ''red'',
                                size_factor := gamma_red_size_factor self,
                                reasons := reasons action @ [''GAMMA_RED_THROTTLE'']\<rparr>
            in if total_drawdown > kill_drawdown_threshold self then
                 action\<lparr>flatten_positions := True,
                        reasons := reasons action @ [''GAMMA_RED_DRAWDOWN_KILL'']\<rparr>
               else action))"

section \<open>risk/limits.py\<close>

record RiskLimits =
  initial_capital :: real
  max_capital_at_risk :: real
  max_leverage :: real
  max_abs_gamma :: real
  max_abs_vega :: real

definition trade_allowed ::
  "RiskLimits \<Rightarrow> int \<Rightarrow> real \<Rightarrow> real \<Rightarrow> real \<Rightarrow> real \<Rightarrow> real \<Rightarrow> bool \<times> string" where
  \<comment> \<open>Both divisions come after the first check, where the divisor is positive, so
     Python's \<open>/\<close> cannot raise there.\<close>
  "trade_allowed self projected_option_contracts option_price projected_notional
       projected_gamma_abs projected_vega_abs projected_equity =
     (if projected_equity \<le> 0 then (False, ''Equity exhausted'')
      else
        let capital_at_risk_ratio =
              \<bar>of_int projected_option_contracts * option_price * CONTRACT_MULTIPLIER\<bar>
                / projected_equity
        in if capital_at_risk_ratio > max_capital_at_risk self then
             (False, ''Blocked: capital-at-risk limit breached'')
           else
             let leverage = projected_notional / projected_equity
             in if leverage > max_leverage self then
                  (False, ''Blocked: leverage limit breached'')
                else if projected_gamma_abs > max_abs_gamma self then
                  (False, ''Blocked: gamma limit breached'')
                else if projected_vega_abs > max_abs_vega self then
                  (False, ''Blocked: vega limit breached'')
                else (True, ''''))"

section \<open>execution/trades.py and execution/hedge.py\<close>

record OptionTradeResult =
  new_contracts :: int
  ot_cash :: real
  traded_contracts :: int
  ot_notional_traded :: real
  ot_fees :: real
  ot_slippage :: real

definition execute_option_trade ::
  "int \<Rightarrow> int \<Rightarrow> real \<Rightarrow> real \<Rightarrow> real \<Rightarrow> real \<Rightarrow> OptionTradeResult" where
  "execute_option_trade current_contracts target_contracts option_price cash
       fee_per_contract slippage_bps =
     (let trade_qty = target_contracts - current_contracts;
          notional = of_int \<bar>trade_qty\<bar> * option_price * CONTRACT_MULTIPLIER;
          fees = of_int \<bar>trade_qty\<bar> * fee_per_contract;
          slippage = notional * (slippage_bps / 10000);
          cash_change = - (of_int trade_qty * option_price * CONTRACT_MULTIPLIER) - fees - slippage;
          new_cash = cash + cash_change
      in \<lparr>new_contracts = target_contracts, ot_cash = new_cash,
          traded_contracts = trade_qty, ot_notional_traded = notional,
          ot_fees = fees, ot_slippage = slippage\<rparr>)"

record HedgeTradeResult =
  new_shares :: int
  ht_cash :: real
  traded_shares :: int
  ht_notional_traded :: real
  ht_fees :: real
  ht_slippage :: real

definition rebalance_delta_hedge ::
  "int \<Rightarrow> int \<Rightarrow> real \<Rightarrow> real \<Rightarrow> real \<Rightarrow> real \<Rightarrow> HedgeTradeResult" where
  "rebalance_delta_hedge current_shares target_shares spot_price cash
       fee_per_share slippage_bps =
     (let trade_shares = target_shares - current_shares;
          notional = of_int \<bar>trade_shares\<bar> * spot_price;
          fees = of_int \<bar>trade_shares\<bar> * fee_per_share;
          slippage = notional * (slippage_bps / 10000);
          cash_change = - (of_int trade_shares * spot_price) - fees - slippage;
          new_cash = cash + cash_change
      in \<lparr>new_shares = target_shares, ht_cash = new_cash,
          traded_shares = trade_shares, ht_notional_traded = notional,
          ht_fees = fees, ht_slippage = slippage\<rparr>)"

text \<open>The default arguments of the two execution functions, as the simulation loop
  calls them.\<close>

definition default_fee_per_contract :: real where "default_fee_per_contract = 65 / 100"
definition default_option_slippage_bps :: real where "default_option_slippage_bps = 5"
definition default_fee_per_share :: real where "default_fee_per_share = 5 / 1000"
definition default_hedge_slippage_bps :: real where "default_hedge_slippage_bps = 1"

section \<open>analytics/exposure.py and analytics/drawdown.py\<close>

record exposures =
  delta_exposure :: real
  gamma_exposure :: real
  vega_exposure :: real
  option_notional :: real
  hedge_notional :: real
  notional_exposure :: real

definition compute_exposures ::
  "int \<Rightarrow> int \<Rightarrow> real \<Rightarrow> real \<Rightarrow> real \<Rightarrow> real \<Rightarrow> real \<Rightarrow> exposures" where
  "compute_exposures option_contracts hedge_shares spot_price option_price
       option_delta option_gamma option_vega =
     (let option_delta_shares = of_int option_contracts * option_delta * CONTRACT_MULTIPLIER;
          total_delta = option_delta_shares + of_int hedge_shares;
          gamma_exp = of_int option_contracts * option_gamma * CONTRACT_MULTIPLIER;
          vega_exp = of_int option_contracts * option_vega * CONTRACT_MULTIPLIER;
          option_ntl = \<bar>of_int option_contracts * option_price * CONTRACT_MULTIPLIER\<bar>;
          hedge_ntl = \<bar>of_int hedge_shares * spot_price\<bar>
      in \<lparr>delta_exposure = total_delta, gamma_exposure = gamma_exp,
          vega_exposure = vega_exp, option_notional = option_ntl,
          hedge_notional = hedge_ntl, notional_exposure = option_ntl + hedge_ntl\<rparr>)"

record DrawdownTracker =
  peak_equity :: real
  max_drawdown :: real

definition peek :: "DrawdownTracker \<Rightarrow> real \<Rightarrow> real" where
  "peek self equity =
     (let peak = max (peak_equity self) equity
      in if peak \<le> 0 then 0 else max 0 ((peak - equity) / peak))"

definition update :: "DrawdownTracker \<Rightarrow> real \<Rightarrow> DrawdownTracker \<times> real" where
  "update self equity =
     (let self = (if equity > peak_equity self then self\<lparr>peak_equity := equity\<rparr> else self);
          current_drawdown = peek self equity;
          self = (if current_drawdown > max_drawdown self
                  then self\<lparr>max_drawdown := current_drawdown\<rparr> else self)
      in (self, current_drawdown))"

section \<open>strategy/position\_sizing.py\<close>

definition target_option_contracts :: "int \<Rightarrow> real \<Rightarrow> real \<Rightarrow> real \<Rightarrow> real \<Rightarrow> int" where
  \<comment> \<open>Float floor division \<open>a // b\<close> with \<open>b > 0\<close> is \<open>\<lfloor>a / b\<rfloor>\<close>.\<close>
  "target_option_contracts signal option_price capital_base max_car size_fac =
     (if signal = 0 \<or> option_price \<le> 0 \<or> capital_base \<le> 0 then 0
      else
        let bounded_size = max 0 (min size_fac 1);
            risk_budget = capital_base * max_car * bounded_size;
            per_contract_notional = option_price * CONTRACT_MULTIPLIER;
            contracts = \<lfloor>risk_budget / per_contract_notional\<rfloor>
        in if contracts \<le> 0 then 0
           else if signal > 0 then contracts else - contracts)"

definition target_contracts_by_vega_budget :: "int \<Rightarrow> real \<Rightarrow> real \<Rightarrow> real \<Rightarrow> real \<Rightarrow> int" where
  "target_contracts_by_vega_budget signal capital_base option_vega max_abs_vega_ratio size_fac =
     (if signal = 0 \<or> capital_base \<le> 0 \<or> option_vega \<le> 0 then 0
      else
        let bounded_size = max 0 (min size_fac 1);
            target_abs_vega = capital_base * max 0 max_abs_vega_ratio * bounded_size;
            per_contract_vega = option_vega * CONTRACT_MULTIPLIER;
            contracts = \<lfloor>target_abs_vega / per_contract_vega\<rfloor>
        in if contracts \<le> 0 then 0
           else if signal > 0 then contracts else - contracts)"

section \<open>main.py: projected trades and the risk-budget clamp\<close>

definition gamma_risk_metric :: "real \<Rightarrow> real \<Rightarrow> real" where
  "gamma_risk_metric gamma_exp spot_price = \<bar>gamma_exp\<bar> * max spot_price 0 * (1 / 10000)"

text \<open>The market quantities of one bar that a projected trade is checked against.\<close>

record quote =
  q_spot :: real
  q_option_mid :: real
  q_delta :: real
  q_gamma :: real
  q_vega :: real

definition evaluate_projected_trade ::
  "RiskLimits \<Rightarrow> int \<Rightarrow> quote \<Rightarrow> real \<Rightarrow> bool \<times> string \<times> exposures" where
  "evaluate_projected_trade risk_limits projected_option_contracts q projected_equity =
     (let projected_hedge_shares =
            py_round (- of_int projected_option_contracts * q_delta q * 100);
          projected_exposure =
            compute_exposures projected_option_contracts projected_hedge_shares
              (q_spot q) (q_option_mid q) (q_delta q) (q_gamma q) (q_vega q);
          (allowed, block_reason) =
            trade_allowed risk_limits projected_option_contracts (q_option_mid q)
              (notional_exposure projected_exposure)
              \<bar>gamma_exposure projected_exposure\<bar>
              \<bar>vega_exposure projected_exposure\<bar>
              projected_equity
      in (allowed, block_reason, projected_exposure))"

text \<open>The \<open>while low <= high\<close> loop of \<open>clamp_target_to_risk_limits\<close>, with the
  loop variables as arguments; the result is \<open>best_abs\<close> at exit.\<close>

function clamp_loop ::
  "RiskLimits \<Rightarrow> quote \<Rightarrow> real \<Rightarrow> int \<Rightarrow> int \<Rightarrow> int \<Rightarrow> int \<Rightarrow> int" where
  "clamp_loop risk_limits q projected_equity sign low high best_abs =
     (if low \<le> high then
        let mid = (low + high) div 2;
            candidate = sign * mid
        in if fst (evaluate_projected_trade risk_limits candidate q projected_equity)
           then clamp_loop risk_limits q projected_equity sign (mid + 1) high mid
           else clamp_loop risk_limits q projected_equity sign low (mid - 1) best_abs
      else best_abs)"
  by pat_completeness auto
termination
  by (relation "measure (\<lambda>(risk_limits, q, projected_equity, sign, low, high, best_abs).
                 nat (high - low + 1))") auto

definition clamp_target_to_risk_limits :: "int \<Rightarrow> RiskLimits \<Rightarrow> quote \<Rightarrow> real \<Rightarrow> int" where
  "clamp_target_to_risk_limits desired_contracts risk_limits q projected_equity =
     (if desired_contracts = 0 then 0
      else
        let sign = (if desired_contracts > 0 then 1 else - 1)
        in sign * clamp_loop risk_limits q projected_equity sign 0 \<bar>desired_contracts\<bar> 0)"

section \<open>strategy/signal.py\<close>

datatype StrategyMode = Short | Long | Adaptive

datatype Stance = SHORT_VOL | LONG_VOL | FLAT | PAUSED

record SignalConfig =
  rv_short_window :: int
  rv_medium_window :: int
  trend_window :: int
  long_chop_window :: int
  short_edge_threshold :: real
  short_edge_collapse_tolerance :: real
  short_trend_threshold :: real
  short_jump_threshold :: real
  short_rv_change_threshold :: real
  long_edge_threshold :: real
  long_max_iv_premium :: real
  long_edge_collapse_tolerance :: real
  long_rv_rise_threshold :: real
  long_chop_threshold :: real
  long_two_way_chop_score_threshold :: real
  long_two_way_trend_threshold :: real
  cooldown_bars :: int
  adaptive_enter_persist_bars :: int
  adaptive_exit_persist_bars :: int
  adaptive_pause_bars :: int
  adaptive_short_edge_enter :: real
  adaptive_short_edge_exit :: real
  adaptive_short_trend_enter :: real
  adaptive_short_trend_exit :: real
  adaptive_vov_low :: real
  adaptive_vov_high :: real
  adaptive_vov_exit :: real
  adaptive_long_cheapness_enter :: real
  adaptive_long_cheapness_exit :: real
  adaptive_long_trend_max :: real
  adaptive_confidence_buffer :: real

definition min_warmup_bars :: "SignalConfig \<Rightarrow> int" where
  "min_warmup_bars self = max (max (rv_short_window self) (rv_medium_window self)) (trend_window self)"

record SignalDecision =
  stance :: Stance
  signal :: int
  reason :: string
  pricing_filter_passed :: bool
  path_filter_passed :: bool
  instability_filter_passed :: bool
  two_way_filter_passed :: bool
  edge :: real
  edge_velocity :: real
  rv_short :: real
  rv_medium :: real
  trend_strength :: real
  jump_abs_return :: real
  rv_change :: real
  choppiness :: real
  chop_score :: pyfloat
  d_cooldown_remaining :: int
  cooldown_active :: bool

definition rolling_mean :: "real list \<Rightarrow> int \<Rightarrow> error + real" where
  \<comment> \<open>\<open>values[-w:]\<close> with \<open>1 \<le> w \<le> len(values)\<close> is the last \<open>w\<close> elements.\<close>
  "rolling_mean values window =
     (if values = [] then Inr 0
      else
        let w = max 1 (min window (int (length values)));
            subset = drop (length values - nat w) values
        in py_truediv (sum_list subset) (real (length subset)))"

definition err_bind :: "error + 'a \<Rightarrow> ('a \<Rightarrow> error + 'b) \<Rightarrow> error + 'b" where
  \<comment> \<open>Sequencing of a computation that may raise: an exception propagates.\<close>
  "err_bind r f = (case r of Inl e \<Rightarrow> Inl e | Inr v \<Rightarrow> f v)"

definition safe_price_trend_strength :: "real \<Rightarrow> real list \<Rightarrow> int \<Rightarrow> error + real" where
  "safe_price_trend_strength spot prices window =
     err_bind (rolling_mean prices window) (\<lambda>baseline.
       if baseline \<le> 0 then Inr 0
       else err_bind (py_truediv spot baseline) (\<lambda>ratio. Inr \<bar>ratio - 1\<bar>))"

definition signal_for_stance :: "Stance \<Rightarrow> int" where
  "signal_for_stance s = (if s = LONG_VOL then 1 else if s = SHORT_VOL then - 1 else 0)"

record RegimeSignalEngine =
  mode :: StrategyMode
  config :: SignalConfig
  prev_edge :: "real option"
  prev_stance :: Stance
  cooldown_remaining :: int
  adaptive_state :: Stance
  adaptive_pause_remaining :: int
  adaptive_short_enter_count :: int
  adaptive_long_enter_count :: int
  adaptive_short_exit_count :: int
  adaptive_long_exit_count :: int
  adaptive_pause_reason :: string

definition init_engine :: "StrategyMode \<Rightarrow> SignalConfig \<Rightarrow> RegimeSignalEngine" where
  \<comment> \<open>\<open>RegimeSignalEngine.__init__\<close>\<close>
  "init_engine m c =
     \<lparr>mode = m, config = c, prev_edge = None, prev_stance = FLAT, cooldown_remaining = 0,
      adaptive_state = FLAT, adaptive_pause_remaining = 0,
      adaptive_short_enter_count = 0, adaptive_long_enter_count = 0,
      adaptive_short_exit_count = 0, adaptive_long_exit_count = 0,
      adaptive_pause_reason = ''''\<rparr>"

definition force_pause :: "RegimeSignalEngine \<Rightarrow> int \<Rightarrow> string \<Rightarrow> RegimeSignalEngine" where
  "force_pause self bars why =
     (let pause_bars = max 0 bars
      in if pause_bars \<le> 0 then self
         else if mode self = Adaptive \<or> mode self = Long then
           self\<lparr>adaptive_state := PAUSED,
                adaptive_pause_remaining := max (adaptive_pause_remaining self) pause_bars,
                adaptive_short_enter_count := 0,
                adaptive_long_enter_count := 0,
                adaptive_short_exit_count := 0,
                adaptive_long_exit_count := 0,
                adaptive_pause_reason := why,
                prev_stance := PAUSED\<rparr>
         else self\<lparr>cooldown_remaining := max (cooldown_remaining self) pause_bars\<rparr>)"

record metrics =
  m_rv_short :: real
  m_rv_medium :: real
  m_edge :: real
  m_edge_velocity :: real
  m_trend_strength :: real
  m_jump_abs_return :: real
  m_rv_change :: real
  m_choppiness :: real
  m_chop_score :: pyfloat

definition adaptive_short_enter_ok :: "SignalConfig \<Rightarrow> metrics \<Rightarrow> bool" where
  "adaptive_short_enter_ok c m \<longleftrightarrow>
     m_edge m > adaptive_short_edge_enter c
     \<and> m_trend_strength m < adaptive_short_trend_enter c
     \<and> m_rv_change m < adaptive_vov_low c"

definition adaptive_short_exit_ok :: "SignalConfig \<Rightarrow> metrics \<Rightarrow> bool" where
  "adaptive_short_exit_ok c m \<longleftrightarrow>
     m_edge m < adaptive_short_edge_exit c
     \<or> m_trend_strength m > adaptive_short_trend_exit c
     \<or> m_rv_change m > adaptive_vov_high c"

definition adaptive_long_enter_ok :: "SignalConfig \<Rightarrow> metrics \<Rightarrow> bool" where
  "adaptive_long_enter_ok c m \<longleftrightarrow>
     (let cheapness = - m_edge m
      in cheapness > adaptive_long_cheapness_enter c
         \<and> m_rv_change m > adaptive_vov_high c
         \<and> m_trend_strength m < adaptive_long_trend_max c)"

definition adaptive_long_exit_ok :: "SignalConfig \<Rightarrow> metrics \<Rightarrow> bool" where
  "adaptive_long_exit_ok c m \<longleftrightarrow>
     (let cheapness = - m_edge m
      in cheapness < adaptive_long_cheapness_exit c
         \<or> m_rv_change m < adaptive_vov_exit c)"

definition base_metrics ::
  "RegimeSignalEngine \<Rightarrow> real \<Rightarrow> real list \<Rightarrow> real \<Rightarrow> real list \<Rightarrow> real list
     \<Rightarrow> error + (metrics \<times> RegimeSignalEngine)" where
  "base_metrics self implied_vol realized_vol_series spot price_series return_series =
     err_bind (rolling_mean realized_vol_series (rv_short_window (config self))) (\<lambda>rv_s.
     err_bind (rolling_mean realized_vol_series (rv_medium_window (config self))) (\<lambda>rv_m.
       let edg = implied_vol - rv_s;
           edg_velocity = (case prev_edge self of None \<Rightarrow> 0 | Some pe \<Rightarrow> edg - pe);
           self = self\<lparr>prev_edge := Some edg\<rparr>
       in
     err_bind (safe_price_trend_strength spot price_series (trend_window (config self))) (\<lambda>trend.
       let jump = (if return_series \<noteq> [] then \<bar>last return_series\<bar> else 0);
           rv_chg = \<bar>rv_s - rv_m\<bar>
       in
     err_bind (rolling_mean (map abs return_series) (long_chop_window (config self))) (\<lambda>chop.
     err_bind (rolling_mean return_series (long_chop_window (config self))) (\<lambda>avg_return.
       let denom = \<bar>avg_return\<bar>
       in
     err_bind (if denom > 1 / 10 ^ 12
               then err_bind (py_truediv chop denom) (\<lambda>quot. Inr (Fin quot))
               else Inr PosInf) (\<lambda>chop_sc.
       Inr (\<lparr>m_rv_short = rv_s, m_rv_medium = rv_m, m_edge = edg,
             m_edge_velocity = edg_velocity, m_trend_strength = trend,
             m_jump_abs_return = jump, m_rv_change = rv_chg,
             m_choppiness = chop, m_chop_score = chop_sc\<rparr>, self)))))))"

text \<open>
  The local variables of \<open>decide\<close> that its branches assign, with the initial values
  \<open>decide\<close> gives them before the mode dispatch.
\<close>

record decide_vars =
  pricing_ok :: bool
  path_ok :: bool
  instability_ok :: bool
  two_way_ok :: bool
  v_reason :: string
  v_stance :: Stance
  v_cooldown_active :: bool

definition init_vars :: decide_vars where
  "init_vars =
     \<lparr>pricing_ok = False, path_ok = True, instability_ok = True, two_way_ok = True,
      v_reason = ''FLAT: warmup'', v_stance = FLAT, v_cooldown_active = False\<rparr>"

definition join_plus :: "string list \<Rightarrow> string" where
  \<comment> \<open>\<open>'+'.join(failed)\<close>\<close>
  "join_plus xs = (case xs of [] \<Rightarrow> [] | y # ys \<Rightarrow> foldl (\<lambda>acc z. acc @ ''+'' @ z) y ys)"

definition pf_ge :: "pyfloat \<Rightarrow> real \<Rightarrow> bool" where
  \<comment> \<open>\<open>>=\<close> of a possibly infinite float against a finite threshold.\<close>
  "pf_ge x t = (case x of Fin r \<Rightarrow> r \<ge> t | PosInf \<Rightarrow> True)"

definition paused_step :: "RegimeSignalEngine \<times> decide_vars \<Rightarrow> RegimeSignalEngine \<times> decide_vars" where
  \<comment> \<open>The \<open>adaptive_state == "PAUSED"\<close> block, the same text in the adaptive and the
     long branch of \<open>decide\<close>.\<close>
  "paused_step sv =
     (let (self, vars) = sv;
          self = (if adaptive_pause_remaining self > 0
                  then self\<lparr>adaptive_pause_remaining := adaptive_pause_remaining self - 1\<rparr>
                  else self);
          vars = vars\<lparr>v_cooldown_active := True\<rparr>;
          self = self\<lparr>cooldown_remaining := adaptive_pause_remaining self\<rparr>;
          vars = vars\<lparr>v_stance := PAUSED\<rparr>;
          pause_reason = (if adaptive_pause_reason self \<noteq> [] then adaptive_pause_reason self
                          else ''cooldown'');
          vars = vars\<lparr>v_reason := ''PAUSED: '' @ pause_reason\<rparr>
      in if adaptive_pause_remaining self \<le> 0 then
           (self\<lparr>adaptive_state := FLAT, adaptive_pause_reason := ''''\<rparr>,
            vars\<lparr>v_stance := FLAT, v_reason := ''FLAT: pause complete''\<rparr>)
         else (self, vars))"

definition adaptive_flat_entry ::
  "metrics \<Rightarrow> RegimeSignalEngine \<times> decide_vars \<Rightarrow> RegimeSignalEngine \<times> decide_vars" where
  \<comment> \<open>The body of \<open>if self.adaptive_state == "FLAT":\<close> in the adaptive branch. The two
     scores and their gap are sums of floats in the source and of reals here; the
     concrete runs stated about this function take the same branches when they are
     evaluated in double precision.\<close>
  "adaptive_flat_entry m sv =
     (let (self, vars) = sv;
          c = config self;
          enter_persist = max 1 (adaptive_enter_persist_bars c);
          self = (if adaptive_short_enter_ok c m
                  then self\<lparr>adaptive_short_enter_count := adaptive_short_enter_count self + 1\<rparr>
                  else self\<lparr>adaptive_short_enter_count := 0\<rparr>);
          self = (if adaptive_long_enter_ok c m
                  then self\<lparr>adaptive_long_enter_count := adaptive_long_enter_count self + 1\<rparr>
                  else self\<lparr>adaptive_long_enter_count := 0\<rparr>);
          selected_stance =
            (if adaptive_short_enter_count self \<ge> enter_persist
                \<and> adaptive_long_enter_count self \<ge> enter_persist then
               let short_strength =
                     (m_edge m - adaptive_short_edge_enter c)
                     + (adaptive_short_trend_enter c - m_trend_strength m)
                     + (adaptive_vov_low c - m_rv_change m);
                   long_strength =
                     ((- m_edge m) - adaptive_long_cheapness_enter c)
                     + (m_rv_change m - adaptive_vov_high c)
                     + (adaptive_long_trend_max c - m_trend_strength m)
               in if \<bar>short_strength - long_strength\<bar> \<ge> adaptive_confidence_buffer c then
                    (if short_strength \<ge> long_strength then SHORT_VOL else LONG_VOL)
                  else FLAT
             else if adaptive_short_enter_count self \<ge> enter_persist then SHORT_VOL
             else if adaptive_long_enter_count self \<ge> enter_persist then LONG_VOL
             else FLAT)
      in if selected_stance = SHORT_VOL then
           (self\<lparr>adaptive_state := SHORT_VOL, adaptive_short_exit_count := 0,
                 adaptive_long_exit_count := 0\<rparr>,
            vars\<lparr>v_stance := SHORT_VOL, v_reason := ''SHORT: adaptive enter persisted''\<rparr>)
         else if selected_stance = LONG_VOL then
           (self\<lparr>adaptive_state := LONG_VOL, adaptive_short_exit_count := 0,
                 adaptive_long_exit_count := 0\<rparr>,
            vars\<lparr>v_stance := LONG_VOL, v_reason := ''LONG: adaptive enter persisted''\<rparr>)
         else
           (self, vars\<lparr>v_stance := FLAT, v_reason := ''FLAT: no adaptive regime''\<rparr>))"

definition decide_adaptive ::
  "metrics \<Rightarrow> RegimeSignalEngine \<times> decide_vars \<Rightarrow> RegimeSignalEngine \<times> decide_vars" where
  \<comment> \<open>The \<open>elif self.mode == "adaptive":\<close> branch of \<open>decide\<close>.\<close>
  "decide_adaptive m sv =
     (let (self, vars) = sv;
          c = config self;
          exit_persist = max 1 (adaptive_exit_persist_bars c);
          short_enter_ok = adaptive_short_enter_ok c m;
          long_enter_ok = adaptive_long_enter_ok c m;
          short_exit_ok = adaptive_short_exit_ok c m;
          long_exit_ok = adaptive_long_exit_ok c m;
          vars = vars\<lparr>pricing_ok := short_enter_ok \<or> long_enter_ok,
                     path_ok := short_enter_ok,
                     instability_ok := long_enter_ok,
                     two_way_ok := m_trend_strength m < adaptive_long_trend_max c\<rparr>;
          (self, vars) =
            (if adaptive_state self = PAUSED then paused_step (self, vars)
             else if adaptive_state self = SHORT_VOL then
               let self = (if short_exit_ok
                           then self\<lparr>adaptive_short_exit_count := adaptive_short_exit_count self + 1\<rparr>
                           else self\<lparr>adaptive_short_exit_count := 0\<rparr>)
               in if adaptive_short_exit_count self \<ge> exit_persist then
                    let self = self\<lparr>adaptive_state := PAUSED,
                                    adaptive_pause_remaining := max 0 (adaptive_pause_bars c),
                                    adaptive_pause_reason := ''short exit'',
                                    adaptive_short_exit_count := 0,
                                    adaptive_short_enter_count := 0,
                                    adaptive_long_enter_count := 0\<rparr>;
                        active = adaptive_pause_remaining self > 0;
                        self = self\<lparr>cooldown_remaining := adaptive_pause_remaining self\<rparr>
                    in (self, vars\<lparr>v_cooldown_active := active,
                                   v_stance := (if active then PAUSED else FLAT),
                                   v_reason := ''PAUSED: short exit''\<rparr>)
                  else (self, vars\<lparr>v_stance := SHORT_VOL, v_reason := ''SHORT: regime active''\<rparr>)
             else if adaptive_state self = LONG_VOL then
               let self = (if long_exit_ok
                           then self\<lparr>adaptive_long_exit_count := adaptive_long_exit_count self + 1\<rparr>
                           else self\<lparr>adaptive_long_exit_count := 0\<rparr>)
               in if adaptive_long_exit_count self \<ge> exit_persist then
                    let self = self\<lparr>adaptive_state := PAUSED,
                                    adaptive_pause_remaining := max 0 (adaptive_pause_bars c),
                                    adaptive_pause_reason := ''long exit'',
                                    adaptive_long_exit_count := 0,
                                    adaptive_short_enter_count := 0,
                                    adaptive_long_enter_count := 0\<rparr>;
                        active = adaptive_pause_remaining self > 0;
                        self = self\<lparr>cooldown_remaining := adaptive_pause_remaining self\<rparr>
                    in (self, vars\<lparr>v_cooldown_active := active,
                                   v_stance := (if active then PAUSED else FLAT),
                                   v_reason := ''PAUSED: long exit''\<rparr>)
                  else (self, vars\<lparr>v_stance := LONG_VOL, v_reason := ''LONG: regime active''\<rparr>)
             else (self, vars));
          (self, vars) =
            (if adaptive_state self = FLAT then adaptive_flat_entry m (self, vars)
             else (self, vars))
      in (self\<lparr>cooldown_remaining := adaptive_pause_remaining self\<rparr>, vars))"

definition decide_long ::
  "metrics \<Rightarrow> RegimeSignalEngine \<times> decide_vars \<Rightarrow> RegimeSignalEngine \<times> decide_vars" where
  \<comment> \<open>The \<open>elif self.mode == "long":\<close> branch of \<open>decide\<close>.\<close>
  "decide_long m sv =
     (let (self, vars) = sv;
          c = config self;
          enter_persist = max 1 (adaptive_enter_persist_bars c);
          exit_persist = max 1 (adaptive_exit_persist_bars c);
          long_enter_ok = adaptive_long_enter_ok c m;
          long_exit_ok = adaptive_long_exit_ok c m;
          vars = vars\<lparr>pricing_ok := long_enter_ok,
                     instability_ok := long_enter_ok,
                     two_way_ok := m_trend_strength m < adaptive_long_trend_max c,
                     path_ok := True\<rparr>;
          (self, vars) =
            (if adaptive_state self = PAUSED then paused_step (self, vars)
             else if adaptive_state self = LONG_VOL then
               let self = (if long_exit_ok
                           then self\<lparr>adaptive_long_exit_count := adaptive_long_exit_count self + 1\<rparr>
                           else self\<lparr>adaptive_long_exit_count := 0\<rparr>)
               in if adaptive_long_exit_count self \<ge> exit_persist then
                    let self = self\<lparr>adaptive_state := PAUSED,
                                    adaptive_pause_remaining := max 0 (adaptive_pause_bars c),
                                    adaptive_pause_reason := ''long exit'',
                                    adaptive_long_exit_count := 0,
                                    adaptive_long_enter_count := 0\<rparr>;
                        active = adaptive_pause_remaining self > 0;
                        self = self\<lparr>cooldown_remaining := adaptive_pause_remaining self\<rparr>
                    in (self, vars\<lparr>v_cooldown_active := active,
                                   v_stance := (if active then PAUSED else FLAT),
                                   v_reason := ''PAUSED: long exit''\<rparr>)
                  else (self, vars\<lparr>v_stance := LONG_VOL, v_reason := ''LONG: regime active''\<rparr>)
             else
               let self = self\<lparr>adaptive_state := FLAT\<rparr>;
                   self = (if long_enter_ok
                           then self\<lparr>adaptive_long_enter_count := adaptive_long_enter_count self + 1\<rparr>
                           else self\<lparr>adaptive_long_enter_count := 0\<rparr>)
               in if adaptive_long_enter_count self \<ge> enter_persist then
                    (self\<lparr>adaptive_state := LONG_VOL, adaptive_long_exit_count := 0\<rparr>,
                     vars\<lparr>v_stance := LONG_VOL, v_reason := ''LONG: adaptive enter persisted''\<rparr>)
                  else
                    (self, vars\<lparr>v_stance := FLAT, v_reason := ''FLAT: no long adaptive regime''\<rparr>))
      in (self\<lparr>cooldown_remaining := adaptive_pause_remaining self\<rparr>, vars))"

definition decide_short :: "metrics \<Rightarrow> SignalConfig \<Rightarrow> decide_vars \<Rightarrow> decide_vars" where
  \<comment> \<open>The \<open>elif self.mode == "short":\<close> branch of \<open>decide\<close>; it does not touch \<open>self\<close>.\<close>
  "decide_short m c vars =
     (let vars = vars\<lparr>pricing_ok :=
                       (m_edge m \<ge> short_edge_threshold c
                        \<and> m_edge_velocity m \<ge> - short_edge_collapse_tolerance c)\<rparr>;
          vars = vars\<lparr>path_ok :=
                       (m_trend_strength m \<le> short_trend_threshold c
                        \<and> m_jump_abs_return m \<le> short_jump_threshold c
                        \<and> m_rv_change m \<le> short_rv_change_threshold c)\<rparr>
      in if pricing_ok vars \<and> path_ok vars then
           vars\<lparr>v_stance := SHORT_VOL, v_reason := ''SHORT: edge+path OK''\<rparr>
         else
           let failed = (if \<not> pricing_ok vars then [''pricing''] else [])
                        @ (if \<not> path_ok vars then [''path''] else [])
           in vars\<lparr>v_stance := FLAT,
                   v_reason := ''FLAT: short gate fail ('' @ join_plus failed @ '')''\<rparr>)"

definition decide_else :: "metrics \<Rightarrow> SignalConfig \<Rightarrow> decide_vars \<Rightarrow> decide_vars" where
  \<comment> \<open>The final \<open>else:\<close> branch of \<open>decide\<close> (a mode other than the three above with
     no cooldown running); with \<^typ>\<open>StrategyMode\<close> it is never taken.\<close>
  "decide_else m c vars =
     (let cheapness = - m_edge m;
          relative_premium_ok = m_edge m \<le> long_max_iv_premium c;
          vars = vars\<lparr>pricing_ok :=
                       ((cheapness \<ge> long_edge_threshold c \<or> relative_premium_ok)
                        \<and> m_edge_velocity m \<le> long_edge_collapse_tolerance c)\<rparr>;
          vars = vars\<lparr>two_way_ok :=
                       (m_trend_strength m \<le> long_two_way_trend_threshold c
                        \<or> pf_ge (m_chop_score m) (long_two_way_chop_score_threshold c))\<rparr>;
          vars = vars\<lparr>instability_ok :=
                       ((m_rv_short m - m_rv_medium m) \<ge> long_rv_rise_threshold c
                        \<and> m_choppiness m \<ge> long_chop_threshold c
                        \<and> two_way_ok vars)\<rparr>
      in if pricing_ok vars \<and> instability_ok vars then
           vars\<lparr>v_stance := LONG_VOL, v_reason := ''LONG: pricing+instability OK''\<rparr>
         else
           let failed = (if \<not> pricing_ok vars then [''pricing''] else [])
                        @ (if \<not> instability_ok vars then [''instability''] else [])
                        @ (if \<not> two_way_ok vars then [''two_way''] else [])
           in vars\<lparr>v_stance := FLAT,
                   v_reason := ''FLAT: long gate fail ('' @ join_plus failed @ '')''\<rparr>)"

definition decide_dispatch ::
  "metrics \<Rightarrow> nat \<Rightarrow> RegimeSignalEngine \<Rightarrow> RegimeSignalEngine \<times> decide_vars" where
  \<comment> \<open>The \<open>if / elif\<close> chain of \<open>decide\<close> on warm-up, mode and cooldown, in the
     source's order; the second argument is \<open>len(price_series)\<close>.\<close>
  "decide_dispatch m n self =
     (if int n < min_warmup_bars (config self) then
        (self, init_vars\<lparr>v_stance := FLAT, v_reason := ''FLAT: warmup''\<rparr>)
      else if mode self = Adaptive then decide_adaptive m (self, init_vars)
      else if mode self = Long then decide_long m (self, init_vars)
      else if cooldown_remaining self > 0 then
        (self\<lparr>cooldown_remaining := cooldown_remaining self - 1\<rparr>,
         init_vars\<lparr>v_stance := FLAT, v_reason := ''FLAT: cooldown'',
                    v_cooldown_active := True\<rparr>)
      else if mode self = Short then (self, decide_short m (config self) init_vars)
      else (self, decide_else m (config self) init_vars))"

definition decide ::
  "RegimeSignalEngine \<Rightarrow> real \<Rightarrow> real list \<Rightarrow> real \<Rightarrow> real list \<Rightarrow> real list
     \<Rightarrow> error + (SignalDecision \<times> RegimeSignalEngine)" where
  "decide self implied_vol realized_vol_series spot price_series return_series =
     err_bind (base_metrics self implied_vol realized_vol_series spot price_series return_series)
       (\<lambda>(m, self).
          let (self, vars) = decide_dispatch m (length price_series) self;
              self = (if mode self = Short \<and> v_stance vars = FLAT \<and> prev_stance self \<noteq> FLAT
                         \<and> cooldown_bars (config self) > 0
                      then self\<lparr>cooldown_remaining := cooldown_bars (config self)\<rparr>
                      else self);
              self = self\<lparr>prev_stance := v_stance vars\<rparr>
          in Inr (\<lparr>stance = v_stance vars,
                    signal = signal_for_stance (v_stance vars),
                    reason = v_reason vars,
                    pricing_filter_passed = pricing_ok vars,
                    path_filter_passed = path_ok vars,
                    instability_filter_passed = instability_ok vars,
                    two_way_filter_passed = two_way_ok vars,
                    edge = m_edge m,
                    edge_velocity = m_edge_velocity m,
                    rv_short = m_rv_short m,
                    rv_medium = m_rv_medium m,
                    trend_strength = m_trend_strength m,
                    jump_abs_return = m_jump_abs_return m,
                    rv_change = m_rv_change m,
                    choppiness = m_choppiness m,
                    chop_score = m_chop_score m,
                    d_cooldown_remaining = cooldown_remaining self,
                    cooldown_active = v_cooldown_active vars\<rparr>, self))"

section \<open>main.py: the simulation loop of \<open>run_single_mode\<close>\<close>

text \<open>
  One iteration of the \<open>for idx, row in enumerate(market_data)\<close> loop is the function
  \<open>bar_step\<close>; the variables that live across iterations form the record
  \<open>sim_state\<close>. Left out, because nothing in the control flow reads them: the
  event strings other than the three risk-check events, \<open>risk_reasons\<close>,
  \<open>adaptive_pause_reason\<close>, \<open>strategy_gate_reason\<close>, the PnL
  breakdown, \<open>prev_equity\<close> and \<open>daily_return\<close>, \<open>long_bars_in_position\<close>, the
  first-long-trade diagnostic, and all columns of the per-bar row except those kept in
  \<open>step_row\<close>. The diagnostic's \<open>math.log(spot / entry_spot)\<close> can raise only on a
  bar where the \<open>math.log\<close> of the return history raises as well, so the model
  raises on exactly the same bars.
\<close>

definition INITIAL_CAPITAL :: real where
  "INITIAL_CAPITAL = 10000"

record args =
  a_max_leverage :: real
  a_max_abs_gamma :: real
  a_max_abs_vega :: real
  a_gamma_green_threshold :: real
  a_gamma_red_threshold :: real
  a_gamma_yellow_size_factor :: real
  a_gamma_red_size_factor :: real
  a_gamma_kill_drawdown_threshold :: real
  global_drawdown_kill_threshold :: real
  global_drawdown_throttle_threshold :: real
  global_drawdown_throttle_size_factor :: real
  long_catastrophic_kill_threshold :: real
  long_pause_drawdown_threshold :: real
  long_vega_budget_ratio :: real
  a_adaptive_pause_bars :: int
  a_cooldown_bars :: int

definition risk_limits_of :: "args \<Rightarrow> RiskLimits" where
  \<comment> \<open>\<open>RiskLimits(initial_capital=INITIAL_CAPITAL, max_leverage=..., ...)\<close>;
     \<open>max_capital_at_risk\<close> keeps its default.\<close>
  "risk_limits_of a =
     \<lparr>initial_capital = INITIAL_CAPITAL, max_capital_at_risk = 20 / 100,
      max_leverage = a_max_leverage a, max_abs_gamma = a_max_abs_gamma a,
      max_abs_vega = a_max_abs_vega a\<rparr>"

definition kill_switch_of :: "args \<Rightarrow> KillSwitch" where
  "kill_switch_of a =
     \<lparr>gamma_green_threshold = a_gamma_green_threshold a,
      gamma_red_threshold = a_gamma_red_threshold a,
      gamma_yellow_size_factor = a_gamma_yellow_size_factor a,
      gamma_red_size_factor = a_gamma_red_size_factor a,
      kill_drawdown_threshold = a_gamma_kill_drawdown_threshold a\<rparr>"

record bar =
  b_close :: real
  b_realized_vol :: real
  b_option_mid :: real
  b_iv :: real
  b_delta :: real
  b_gamma :: real
  b_vega :: real

definition quote_of :: "bar \<Rightarrow> quote" where
  "quote_of row =
     \<lparr>q_spot = b_close row, q_option_mid = b_option_mid row, q_delta = b_delta row,
      q_gamma = b_gamma row, q_vega = b_vega row\<rparr>"

record sim_state =
  cash :: real
  option_contracts :: int
  hedge_shares :: int
  prev_spot :: "real option"
  prev_option_mid :: "real option"
  spot_history :: "real list"
  rv_history :: "real list"
  return_history :: "real list"
  pending_target_contracts :: int
  adaptive_short_pause_remaining :: int
  adaptive_long_pause_remaining :: int
  drawdown :: DrawdownTracker
  signal_engine :: RegimeSignalEngine

definition init_state :: "StrategyMode \<Rightarrow> SignalConfig \<Rightarrow> sim_state" where
  "init_state md signal_config =
     \<lparr>cash = INITIAL_CAPITAL, option_contracts = 0, hedge_shares = 0,
      prev_spot = None, prev_option_mid = None,
      spot_history = [], rv_history = [], return_history = [],
      pending_target_contracts = 0,
      adaptive_short_pause_remaining = 0, adaptive_long_pause_remaining = 0,
      drawdown = \<lparr>peak_equity = INITIAL_CAPITAL, max_drawdown = 0\<rparr>,
      signal_engine = init_engine md signal_config\<rparr>"

record overlay =
  effective_size_factor :: real
  flatten_for_risk :: bool
  adaptive_pause_side :: string
  adaptive_pause_requires_invalid :: bool

definition risk_overlay ::
  "StrategyMode \<Rightarrow> args \<Rightarrow> KillSwitchAction \<Rightarrow> real \<Rightarrow> int \<Rightarrow> overlay" where
  \<comment> \<open>The mode-specific block after \<open>kill_switch.evaluate\<close>.\<close>
  "risk_overlay md a kill_action drawdown_before_trade opening_option_contracts =
     (let ov = \<lparr>effective_size_factor = size_factor kill_action,
                flatten_for_risk = flatten_positions kill_action,
                adaptive_pause_side = '''',
                adaptive_pause_requires_invalid = False\<rparr>
      in if md = Short then
           (if drawdown_before_trade \<ge> global_drawdown_kill_threshold a then
              ov\<lparr>flatten_for_risk := True\<rparr>
            else if drawdown_before_trade \<ge> global_drawdown_throttle_threshold a then
              ov\<lparr>effective_size_factor :=
                    effective_size_factor ov * global_drawdown_throttle_size_factor a\<rparr>
            else ov)
         else if md = Long then
           let long_has_exposure = opening_option_contracts > 0;
               ov = (if drawdown_before_trade \<ge> global_drawdown_kill_threshold a
                        \<and> long_has_exposure then
                       ov\<lparr>flatten_for_risk := True, adaptive_pause_side := ''long''\<rparr>
                     else if drawdown_before_trade \<ge> global_drawdown_throttle_threshold a
                        \<and> long_has_exposure then
                       ov\<lparr>effective_size_factor :=
                             effective_size_factor ov * global_drawdown_throttle_size_factor a\<rparr>
                     else ov);
               ov = (if drawdown_before_trade \<ge> long_catastrophic_kill_threshold a
                        \<and> long_has_exposure then
                       ov\<lparr>flatten_for_risk := True, adaptive_pause_side := ''long''\<rparr>
                     else if drawdown_before_trade \<ge> long_pause_drawdown_threshold a
                        \<and> long_has_exposure then
                       ov\<lparr>adaptive_pause_side := ''long'',
                          adaptive_pause_requires_invalid := True\<rparr>
                     else ov)
           in if flatten_positions kill_action \<and> long_has_exposure then
                ov\<lparr>flatten_for_risk := True, adaptive_pause_side := ''long''\<rparr>
              else ov
         else
           let adaptive_has_exposure = opening_option_contracts \<noteq> 0;
               adaptive_side = (if opening_option_contracts < 0 then ''short'' else ''long'');
               ov = (if drawdown_before_trade \<ge> global_drawdown_kill_threshold a
                        \<and> adaptive_has_exposure then
                       ov\<lparr>flatten_for_risk := True, adaptive_pause_side := adaptive_side\<rparr>
                     else if drawdown_before_trade \<ge> global_drawdown_throttle_threshold a
                        \<and> adaptive_has_exposure then
                       ov\<lparr>effective_size_factor :=
                             effective_size_factor ov * global_drawdown_throttle_size_factor a\<rparr>
                     else ov);
               ov = (if adaptive_side = ''long''
                        \<and> drawdown_before_trade \<ge> long_catastrophic_kill_threshold a
                        \<and> adaptive_has_exposure then
                       ov\<lparr>flatten_for_risk := True, adaptive_pause_side := ''long''\<rparr>
                     else if adaptive_side = ''long''
                        \<and> drawdown_before_trade \<ge> long_pause_drawdown_threshold a
                        \<and> adaptive_has_exposure then
                       ov\<lparr>adaptive_pause_side := ''long'',
                          adaptive_pause_requires_invalid := True\<rparr>
                     else ov)
           in if flatten_positions kill_action \<and> adaptive_has_exposure then
                ov\<lparr>flatten_for_risk := True,
                   adaptive_pause_side :=
                     (if adaptive_pause_side ov = [] then adaptive_side
                      else adaptive_pause_side ov)\<rparr>
              else ov)"

datatype risk_event =
  RISK_ALLOW_DERISK int int string
  | RISK_CLAMP int int string
  | RISK_BLOCK string

definition risk_limit_check ::
  "RiskLimits \<Rightarrow> quote \<Rightarrow> real \<Rightarrow> bool \<Rightarrow> int \<Rightarrow> int \<Rightarrow> int \<times> string \<times> risk_event option" where
  \<comment> \<open>From \<open>block_reason = ""\<close> to the end of the \<open>if not forced_derisk:\<close> block:
     the target that goes to execution, the block reason and the event appended to
     the log, if any. Arguments: limits, quote, \<open>equity_before_trade\<close>,
     \<open>flatten_for_risk\<close>, \<open>target_contracts\<close>, \<open>opening_option_contracts\<close>.\<close>
  "risk_limit_check risk_limits q equity_before_trade flatten target_contracts
       opening_option_contracts =
     (let block_reason = '''';
          forced_derisk = flatten
      in if \<not> forced_derisk then
           let (allowed, block_reason, _) =
                 evaluate_projected_trade risk_limits target_contracts q equity_before_trade
           in if \<not> allowed then
                let reducing_risk = \<bar>target_contracts\<bar> < \<bar>opening_option_contracts\<bar>
                in if reducing_risk then
                     (target_contracts, block_reason,
                      Some (RISK_ALLOW_DERISK target_contracts opening_option_contracts
                              block_reason))
                   else
                     let clamped_target =
                           clamp_target_to_risk_limits target_contracts risk_limits q
                             equity_before_trade
                     in if \<bar>clamped_target\<bar> > \<bar>opening_option_contracts\<bar> then
                          (clamped_target, '''',
                           Some (RISK_CLAMP target_contracts clamped_target block_reason))
                        else
                          (opening_option_contracts, block_reason,
                           Some (RISK_BLOCK block_reason))
              else (target_contracts, block_reason, None)
         else (target_contracts, block_reason, None))"

text \<open>What the first half of an iteration hands to the second half and to the row.\<close>

record exec_info =
  x_overlay :: overlay
  x_requested_target_contracts :: int
  x_target_before_limits :: int
  x_executed_target_contracts :: int
  x_risk_event :: "risk_event option"
  x_block_reason :: string
  x_equity :: real

definition append_return :: "real option \<Rightarrow> real \<Rightarrow> real list \<Rightarrow> error + real list" where
  \<comment> \<open>\<open>if prev_spot is not None and prev_spot > 0:
       return_history.append(math.log(spot / prev_spot))\<close>;
     \<open>math.log\<close> raises on a non-positive argument.\<close>
  "append_return prev spot history =
     (case prev of
        None \<Rightarrow> Inr history
      | Some p \<Rightarrow>
          if p > 0 then
            (if spot / p \<le> 0 then Inl MathDomainError else Inr (history @ [ln (spot / p)]))
          else Inr history)"

definition execute_phase :: "StrategyMode \<Rightarrow> args \<Rightarrow> sim_state \<Rightarrow> bar \<Rightarrow> error + (sim_state \<times> exec_info)" where
  \<comment> \<open>The loop body up to and including the after-trade drawdown update.\<close>
  "execute_phase md a st row =
     (let st = (if adaptive_short_pause_remaining st > 0
                then st\<lparr>adaptive_short_pause_remaining := adaptive_short_pause_remaining st - 1\<rparr>
                else st);
          st = (if adaptive_long_pause_remaining st > 0
                then st\<lparr>adaptive_long_pause_remaining := adaptive_long_pause_remaining st - 1\<rparr>
                else st);
          spot = b_close row;
          option_mid = b_option_mid row
      in err_bind (append_return (prev_spot st) spot (return_history st)) (\<lambda>rets.
          let st = st\<lparr>return_history := rets,
                      spot_history := spot_history st @ [spot],
                      rv_history := rv_history st @ [b_realized_vol row]\<rparr>;
              opening_option_contracts = option_contracts st;
              opening_hedge_shares = hedge_shares st;
              equity_before_trade =
                cash st + of_int opening_option_contracts * 100 * option_mid
                  + of_int opening_hedge_shares * spot;
              drawdown_before_trade = peek (drawdown st) equity_before_trade;
              exposures_before =
                compute_exposures opening_option_contracts opening_hedge_shares spot option_mid
                  (b_delta row) (b_gamma row) (b_vega row);
              gamma_risk = gamma_risk_metric (gamma_exposure exposures_before) spot;
              kill_action = evaluate (kill_switch_of a) gamma_risk drawdown_before_trade;
              ov = risk_overlay md a kill_action drawdown_before_trade opening_option_contracts;
              requested_target_contracts = pending_target_contracts st;
              target_contracts = pending_target_contracts st;
              target_contracts = (if flatten_for_risk ov then 0 else target_contracts);
              target_before_limits = target_contracts;
              (target_contracts, block_reason, ev) =
                risk_limit_check (risk_limits_of a) (quote_of row) equity_before_trade
                  (flatten_for_risk ov) target_contracts opening_option_contracts;
              executed_target_contracts = target_contracts;
              option_trade =
                execute_option_trade opening_option_contracts target_contracts option_mid
                  (cash st) default_fee_per_contract default_option_slippage_bps;
              st = st\<lparr>option_contracts := new_contracts option_trade,
                      cash := ot_cash option_trade\<rparr>;
              target_hedge_shares =
                py_round (- of_int (option_contracts st) * b_delta row * 100);
              hedge_trade =
                rebalance_delta_hedge opening_hedge_shares target_hedge_shares spot (cash st)
                  default_fee_per_share default_hedge_slippage_bps;
              st = st\<lparr>hedge_shares := new_shares hedge_trade, cash := ht_cash hedge_trade\<rparr>;
              equity =
                cash st + of_int (option_contracts st) * 100 * option_mid
                  + of_int (hedge_shares st) * spot;
              (tracker, drawdown_after_trade) = update (drawdown st) equity;
              st = st\<lparr>drawdown := tracker\<rparr>
          in Inr (st,
                  \<lparr>x_overlay = ov,
                   x_requested_target_contracts = requested_target_contracts,
                   x_target_before_limits = target_before_limits,
                   x_executed_target_contracts = executed_target_contracts,
                   x_risk_event = ev,
                   x_block_reason = block_reason,
                   x_equity = equity\<rparr>)))"

definition size_next_target ::
  "StrategyMode \<Rightarrow> args \<Rightarrow> SignalDecision \<Rightarrow> bar \<Rightarrow> real \<Rightarrow> real \<Rightarrow> int" where
  \<comment> \<open>The first \<open>if mode == "short" / elif mode == "long" / else\<close> after the decision:
     the sizer that turns the signal into \<open>next_target_contracts\<close>.\<close>
  "size_next_target md a decision row equity eff_size_factor =
     (if md = Short then
        target_option_contracts (signal decision) (b_option_mid row) (max equity 0)
          (max_capital_at_risk (risk_limits_of a)) eff_size_factor
      else if md = Long then
        target_contracts_by_vega_budget (signal decision) (max equity 0) (b_vega row)
          (long_vega_budget_ratio a) eff_size_factor
      else if signal decision < 0 then
        target_option_contracts (- 1) (b_option_mid row) (max equity 0)
          (max_capital_at_risk (risk_limits_of a)) eff_size_factor
      else if signal decision > 0 then
        target_contracts_by_vega_budget 1 (max equity 0) (b_vega row)
          (long_vega_budget_ratio a) eff_size_factor
      else 0)"

definition strategy_gate ::
  "StrategyMode \<Rightarrow> args \<Rightarrow> overlay \<Rightarrow> SignalDecision \<Rightarrow> int \<Rightarrow> int \<Rightarrow> int \<Rightarrow> int
     \<Rightarrow> int \<times> int \<times> int" where
  \<comment> \<open>The second \<open>if mode == "short" / elif mode == "long" / else\<close>: the strategy-level
     gating. Arguments after the decision: \<open>option_contracts\<close> (after this bar's trade),
     \<open>next_target_contracts\<close>, the short and the long pause counter; the result is the
     gated target and the two counters.\<close>
  "strategy_gate md a ov decision contracts next_target short_pause long_pause =
     (if md = Short then
        let next_target =
              (if \<not> pricing_filter_passed decision \<or> \<not> path_filter_passed decision
               then 0 else next_target);
            next_target = (if flatten_for_risk ov then 0 else next_target)
        in (next_target, short_pause, long_pause)
      else if md = Long then
        let next_target = (if next_target < 0 then 0 else next_target);
            pause_applied =
              (if adaptive_pause_side ov = ''long'' then
                 (if adaptive_pause_requires_invalid ov then stance decision \<noteq> LONG_VOL
                  else True)
               else False);
            pause_len = max (a_adaptive_pause_bars a) (a_cooldown_bars a);
            long_pause = (if pause_applied then max long_pause pause_len else long_pause);
            next_target = (if pause_applied then 0 else next_target);
            next_target =
              (if stance decision = PAUSED then 0
               else if flatten_for_risk ov then 0 else next_target);
            next_target = (if next_target > 0 \<and> long_pause > 0 then 0 else next_target)
        in (next_target, short_pause, long_pause)
      else
        let pause_applied =
              (if adaptive_pause_side ov \<noteq> [] then
                 (if adaptive_pause_requires_invalid ov then
                    (if adaptive_pause_side ov = ''short'' then stance decision \<noteq> SHORT_VOL
                     else stance decision \<noteq> LONG_VOL)
                  else True)
               else False);
            pause_len = max (a_adaptive_pause_bars a) (a_cooldown_bars a);
            short_pause =
              (if pause_applied \<and> adaptive_pause_side ov = ''short''
               then max short_pause pause_len else short_pause);
            long_pause =
              (if pause_applied \<and> adaptive_pause_side ov \<noteq> ''short''
                  \<and> adaptive_pause_side ov = ''long''
               then max long_pause pause_len else long_pause);
            next_target = (if pause_applied then 0 else next_target);
            next_target =
              (if stance decision = PAUSED then 0
               else if flatten_for_risk ov then 0 else next_target);
            next_target =
              (if next_target < 0 \<and> short_pause > 0 then 0
               else if next_target > 0 \<and> long_pause > 0 then 0
               else next_target);
            next_target =
              (if (contracts < 0 \<and> 0 < next_target) \<or> (contracts > 0 \<and> 0 > next_target)
               then 0 else next_target)
        in (next_target, short_pause, long_pause))"

record step_row =
  r_requested_option_contracts :: int
  r_flatten_for_risk :: bool
  r_target_before_limits :: int
  r_executed_target_contracts :: int
  r_option_contracts :: int
  r_queued_option_contracts :: int
  r_stance :: Stance
  r_signal :: int
  r_cooldown_remaining :: int
  r_risk_event :: "risk_event option"
  r_risk_block_reason :: string

definition queue_phase ::
  "StrategyMode \<Rightarrow> args \<Rightarrow> sim_state \<Rightarrow> exec_info \<Rightarrow> bar \<Rightarrow> error + (sim_state \<times> step_row)" where
  \<comment> \<open>The loop body from \<open>decision = signal_engine.decide(...)\<close> to its end.\<close>
  "queue_phase md a st x row =
     err_bind (decide (signal_engine st) (b_iv row) (rv_history st) (b_close row)
                 (spot_history st) (return_history st)) (\<lambda>(decision, engine).
       let st = st\<lparr>signal_engine := engine\<rparr>;
           next_target_contracts =
             size_next_target md a decision row (x_equity x)
               (effective_size_factor (x_overlay x));
           (next_target_contracts, short_pause, long_pause) =
             strategy_gate md a (x_overlay x) decision (option_contracts st)
               next_target_contracts (adaptive_short_pause_remaining st)
               (adaptive_long_pause_remaining st);
           st = st\<lparr>adaptive_short_pause_remaining := short_pause,
                   adaptive_long_pause_remaining := long_pause,
                   pending_target_contracts := next_target_contracts,
                   prev_spot := Some (b_close row),
                   prev_option_mid := Some (b_option_mid row)\<rparr>
       in Inr (st,
               \<lparr>r_requested_option_contracts = x_requested_target_contracts x,
                r_flatten_for_risk = flatten_for_risk (x_overlay x),
                r_target_before_limits = x_target_before_limits x,
                r_executed_target_contracts = x_executed_target_contracts x,
                r_option_contracts = option_contracts st,
                r_queued_option_contracts = pending_target_contracts st,
                r_stance = stance decision,
                r_signal = signal decision,
                r_cooldown_remaining = d_cooldown_remaining decision,
                r_risk_event = x_risk_event x,
                r_risk_block_reason = x_block_reason x\<rparr>))"

definition bar_step :: "StrategyMode \<Rightarrow> args \<Rightarrow> sim_state \<Rightarrow> bar \<Rightarrow> error + (sim_state \<times> step_row)" where
  "bar_step md a st row =
     err_bind (execute_phase md a st row) (\<lambda>(st, x). queue_phase md a st x row)"

fun run_loop :: "StrategyMode \<Rightarrow> args \<Rightarrow> sim_state \<Rightarrow> bar list \<Rightarrow> error + (sim_state \<times> step_row list)" where
  "run_loop md a st [] = Inr (st, [])"
| "run_loop md a st (row # market_data) =
     (case bar_step md a st row of
        Inl e \<Rightarrow> Inl e
      | Inr (st', r) \<Rightarrow>
          (case run_loop md a st' market_data of
             Inl e \<Rightarrow> Inl e
           | Inr (st'', rows) \<Rightarrow> Inr (st'', r # rows)))"

definition run_single_mode ::
  "StrategyMode \<Rightarrow> args \<Rightarrow> SignalConfig \<Rightarrow> bar list \<Rightarrow> error + (sim_state \<times> step_row list)" where
  "run_single_mode md a signal_config market_data =
     run_loop md a (init_state md signal_config) market_data"


section \<open>Concrete inputs used by the examples\<close>

text \<open>The kill switch and the risk limits with the defaults of their dataclasses.\<close>

definition default_kill_switch :: KillSwitch where
  "default_kill_switch =
     \<lparr>gamma_green_threshold = 5, gamma_red_threshold = 10,
      gamma_yellow_size_factor = 1 / 2, gamma_red_size_factor = 1 / 4,
      kill_drawdown_threshold = 12 / 100\<rparr>"

definition ex_limits :: RiskLimits where
  "ex_limits = \<lparr>initial_capital = 10000, max_capital_at_risk = 20 / 100, max_leverage = 6,
     max_abs_gamma = 75, max_abs_vega = 300\<rparr>"

definition ex_quote :: quote where
  "ex_quote = \<lparr>q_spot = 100, q_option_mid = 2, q_delta = 1 / 2, q_gamma = 1 / 100,
     q_vega = 1 / 10\<rparr>"

text \<open>\<open>SignalConfig()\<close> with the defaults of the dataclass, and the daily preset
  \<open>daily_signal_preset()\<close> of main.py.\<close>

definition default_signal_config :: SignalConfig where
  "default_signal_config =
     \<lparr>rv_short_window = 30, rv_medium_window = 240, trend_window = 120, long_chop_window = 30,
      short_edge_threshold = 2 / 100, short_edge_collapse_tolerance = 5 / 1000,
      short_trend_threshold = 4 / 1000, short_jump_threshold = 6 / 1000,
      short_rv_change_threshold = 6 / 100,
      long_edge_threshold = 15 / 1000, long_max_iv_premium = 3 / 100,
      long_edge_collapse_tolerance = 5 / 1000, long_rv_rise_threshold = 3 / 1000,
      long_chop_threshold = 25 / 100000, long_two_way_chop_score_threshold = 2,
      long_two_way_trend_threshold = 8 / 1000,
      cooldown_bars = 30, adaptive_enter_persist_bars = 3, adaptive_exit_persist_bars = 2,
      adaptive_pause_bars = 30,
      adaptive_short_edge_enter = 2 / 100, adaptive_short_edge_exit = 1 / 100,
      adaptive_short_trend_enter = 4 / 1000, adaptive_short_trend_exit = 6 / 1000,
      adaptive_vov_low = 3 / 1000, adaptive_vov_high = 6 / 1000, adaptive_vov_exit = 4 / 1000,
      adaptive_long_cheapness_enter = 3 / 1000, adaptive_long_cheapness_exit = 15 / 10000,
      adaptive_long_trend_max = 8 / 1000, adaptive_confidence_buffer = 1 / 1000\<rparr>"

definition daily_signal_preset :: SignalConfig where
  "daily_signal_preset =
     \<lparr>rv_short_window = 5, rv_medium_window = 20, trend_window = 20, long_chop_window = 10,
      short_edge_threshold = 5 / 1000, short_edge_collapse_tolerance = 2 / 100,
      short_trend_threshold = 3 / 100, short_jump_threshold = 3 / 100,
      short_rv_change_threshold = 20 / 100,
      long_edge_threshold = 3 / 1000, long_max_iv_premium = 2 / 100,
      long_edge_collapse_tolerance = 2 / 100, long_rv_rise_threshold = 3 / 1000,
      long_chop_threshold = 4 / 1000, long_two_way_chop_score_threshold = 2,
      long_two_way_trend_threshold = 3 / 100,
      cooldown_bars = 3, adaptive_enter_persist_bars = 2, adaptive_exit_persist_bars = 2,
      adaptive_pause_bars = 2,
      adaptive_short_edge_enter = 2 / 100, adaptive_short_edge_exit = 0,
      adaptive_short_trend_enter = 15 / 1000, adaptive_short_trend_exit = 3 / 100,
      adaptive_vov_low = 1 / 100, adaptive_vov_high = 2 / 100, adaptive_vov_exit = 15 / 1000,
      adaptive_long_cheapness_enter = - (4 / 100), adaptive_long_cheapness_exit = - (4 / 100),
      adaptive_long_trend_max = 5 / 100, adaptive_confidence_buffer = 0\<rparr>"

text \<open>
  Two configurations that \<open>daily_signal_with_user_overrides\<close> builds on daily data: the
  daily preset with the command-line overrides \<open>rv-short-window 1\<close>,
  \<open>rv-medium-window 2\<close>, \<open>trend-window 1\<close> and \<open>adaptive-vov-high 0.008\<close>, with and
  without \<open>adaptive-confidence-buffer 0.0337\<close>. The overrides pass the start-up
  validation, which compares them with the other command-line values, not with the
  preset. Then the metrics of two bars on which both adaptive entry predicates hold:
  implied volatility 0.23 over realized volatilities 0.182, 0.2, and implied volatility
  0.25 over realized volatilities 0.182, 0.2, 0.2189, the spot staying at 100.
\<close>

definition boundary_config :: SignalConfig where
  "boundary_config = daily_signal_preset\<lparr>rv_short_window := 1, rv_medium_window := 2,
     trend_window := 1, adaptive_vov_high := 8 / 1000,
     adaptive_confidence_buffer := 337 / 10000\<rparr>"

definition gap_config :: SignalConfig where
  "gap_config = daily_signal_preset\<lparr>rv_short_window := 1, rv_medium_window := 2,
     trend_window := 1, adaptive_vov_high := 8 / 1000\<rparr>"



text \<open>The command-line defaults of the arguments the loop reads, and a bar.\<close>

definition default_args :: args where
  "default_args =
     \<lparr>a_max_leverage = 6, a_max_abs_gamma = 75, a_max_abs_vega = 300,
      a_gamma_green_threshold = 5, a_gamma_red_threshold = 10,
      a_gamma_yellow_size_factor = 1 / 2, a_gamma_red_size_factor = 1 / 4,
      a_gamma_kill_drawdown_threshold = 12 / 100,
      global_drawdown_kill_threshold = 20 / 100,
      global_drawdown_throttle_threshold = 10 / 100,
      global_drawdown_throttle_size_factor = 1 / 2,
      long_catastrophic_kill_threshold = 40 / 100,
      long_pause_drawdown_threshold = 10 / 100,
      long_vega_budget_ratio = 15 / 1000,
      a_adaptive_pause_bars = 30, a_cooldown_bars = 30\<rparr>"

definition ex_bar :: bar where
  "ex_bar = \<lparr>b_close = 100, b_realized_vol = 20 / 100, b_option_mid = 2, b_iv = 25 / 100,
     b_delta = 1 / 2, b_gamma = 1 / 100, b_vega = 1 / 10\<rparr>"

text \<open>
  A short-mode run in which the cooldown starts: the daily preset with the overrides
  \<open>rv-short-window 1\<close>, \<open>rv-medium-window 2\<close> and \<open>trend-window 1\<close> (so that the
  warm-up is two bars and \<open>cooldown_bars\<close> is 3), a bar like \<open>ex_bar\<close> whose implied
  volatility equals the realized one, and the short-mode engine of that configuration
  with given values of the three fields that short mode changes.
\<close>

definition cooldown_config :: SignalConfig where
  "cooldown_config = daily_signal_preset\<lparr>rv_short_window := 1, rv_medium_window := 2,
     trend_window := 1\<rparr>"

definition low_iv_bar :: bar where
  "low_iv_bar = ex_bar\<lparr>b_iv := 20 / 100\<rparr>"

definition engine_at :: "real option \<Rightarrow> Stance \<Rightarrow> int \<Rightarrow> RegimeSignalEngine" where
  "engine_at pe ps cd = (init_engine Short cooldown_config)\<lparr>prev_edge := pe, prev_stance := ps,
     cooldown_remaining := cd\<rparr>"

section \<open>Lemmas on rounding, the risk limiter and the clamp search\<close>

declare clamp_loop.simps [simp del]

lemma clamp_loop_result:
  "clamp_loop rl q eq s low high best = best
   \<or> (low \<le> clamp_loop rl q eq s low high best
      \<and> clamp_loop rl q eq s low high best \<le> high
      \<and> fst (evaluate_projected_trade rl (s * clamp_loop rl q eq s low high best) q eq))"
proof (induction rl q eq s low high best rule: clamp_loop.induct)
  case (1 rl q eq s low high best)
  show ?case
  proof (cases "low \<le> high")
    case False
    then show ?thesis by (simp add: clamp_loop.simps [of rl q eq s low high best])
  next
    case True
    define mid where "mid = (low + high) div 2"
    have mid: "low \<le> mid" "mid \<le> high" using True by (simp_all add: mid_def)
    show ?thesis
    proof (cases "fst (evaluate_projected_trade rl (s * mid) q eq)")
      case pass: True
      have eq1: "clamp_loop rl q eq s low high best = clamp_loop rl q eq s (mid + 1) high mid"
        using True pass by (simp add: clamp_loop.simps [of rl q eq s low high best] mid_def Let_def)
      from "1.IH"(1) [OF True mid_def refl] pass
      have "clamp_loop rl q eq s (mid + 1) high mid = mid
            \<or> (mid + 1 \<le> clamp_loop rl q eq s (mid + 1) high mid
               \<and> clamp_loop rl q eq s (mid + 1) high mid \<le> high
               \<and> fst (evaluate_projected_trade rl (s * clamp_loop rl q eq s (mid + 1) high mid) q eq))"
        by simp
      then show ?thesis using mid pass unfolding eq1 by auto
    next
      case fail: False
      have eq2: "clamp_loop rl q eq s low high best = clamp_loop rl q eq s low (mid - 1) best"
        using True fail by (simp add: clamp_loop.simps [of rl q eq s low high best] mid_def Let_def)
      from "1.IH"(2) [OF True mid_def refl] fail
      have "clamp_loop rl q eq s low (mid - 1) best = best
            \<or> (low \<le> clamp_loop rl q eq s low (mid - 1) best
               \<and> clamp_loop rl q eq s low (mid - 1) best \<le> mid - 1
               \<and> fst (evaluate_projected_trade rl (s * clamp_loop rl q eq s low (mid - 1) best) q eq))"
        by simp
      then show ?thesis using mid unfolding eq2 by auto
    qed
  qed
qed

lemma clamp_loop_max:
  assumes "\<forall>a b. 0 \<le> a \<and> a \<le> b \<and> b \<le> H
             \<and> fst (evaluate_projected_trade rl (s * b) q eq)
             \<longrightarrow> fst (evaluate_projected_trade rl (s * a) q eq)"
    and "0 \<le> low" and "high \<le> H"
    and "\<forall>k. high < k \<and> k \<le> H \<longrightarrow> \<not> fst (evaluate_projected_trade rl (s * k) q eq)"
    and "0 < low \<longrightarrow> best = low - 1"
    and "0 \<le> k" and "k \<le> H" and "fst (evaluate_projected_trade rl (s * k) q eq)"
  shows "k \<le> clamp_loop rl q eq s low high best"
  using assms
proof (induction rl q eq s low high best rule: clamp_loop.induct)
  case (1 rl q eq s low high best)
  note mono = "1.prems"(1)
  show ?case
  proof (cases "low \<le> high")
    case False
    have "k \<le> high" using "1.prems"(4,7,8) by force
    then have "k < low" using False by simp
    then have "best = low - 1" using "1.prems"(5,6) by simp
    moreover have "clamp_loop rl q eq s low high best = best"
      using False by (simp add: clamp_loop.simps [of rl q eq s low high best])
    ultimately show ?thesis using \<open>k < low\<close> by linarith
  next
    case True
    define mid where "mid = (low + high) div 2"
    have mid: "low \<le> mid" "mid \<le> high" using True by (simp_all add: mid_def)
    show ?thesis
    proof (cases "fst (evaluate_projected_trade rl (s * mid) q eq)")
      case pass: True
      have eq1: "clamp_loop rl q eq s low high best = clamp_loop rl q eq s (mid + 1) high mid"
        using True pass by (simp add: clamp_loop.simps [of rl q eq s low high best] mid_def Let_def)
      have "k \<le> clamp_loop rl q eq s (mid + 1) high mid"
      proof (rule "1.IH"(1) [OF True mid_def refl])
        show "fst (evaluate_projected_trade rl (s * mid) q eq)" by (rule pass)
        show "0 \<le> mid + 1" using mid "1.prems"(2) by simp
        show "0 < mid + 1 \<longrightarrow> mid = mid + 1 - 1" by simp
      qed (use "1.prems" in auto)
      then show ?thesis by (simp add: eq1)
    next
      case fail: False
      have eq2: "clamp_loop rl q eq s low high best = clamp_loop rl q eq s low (mid - 1) best"
        using True fail by (simp add: clamp_loop.simps [of rl q eq s low high best] mid_def Let_def)
      have above: "\<forall>j. mid - 1 < j \<and> j \<le> H \<longrightarrow> \<not> fst (evaluate_projected_trade rl (s * j) q eq)"
      proof (intro allI impI notI)
        fix j assume j: "mid - 1 < j \<and> j \<le> H"
          and pj: "fst (evaluate_projected_trade rl (s * j) q eq)"
        have "0 \<le> mid" using mid "1.prems"(2) by simp
        moreover have "mid \<le> j" using j by simp
        ultimately have "fst (evaluate_projected_trade rl (s * mid) q eq)"
          using mono j pj by blast
        then show False using fail by simp
      qed
      have "k \<le> clamp_loop rl q eq s low (mid - 1) best"
      proof (rule "1.IH"(2) [OF True mid_def refl])
        show "\<not> fst (evaluate_projected_trade rl (s * mid) q eq)" by (rule fail)
        show "mid - 1 \<le> H" using mid "1.prems"(3) by simp
        show "\<forall>j. mid - 1 < j \<and> j \<le> H \<longrightarrow> \<not> fst (evaluate_projected_trade rl (s * j) q eq)"
          by (rule above)
      qed (use "1.prems" in auto)
      then show ?thesis by (simp add: eq2)
    qed
  qed
qed

lemma py_round_bounds: "\<lfloor>x\<rfloor> \<le> py_round x \<and> py_round x \<le> \<lfloor>x\<rfloor> + 1"
  by (simp add: py_round_def Let_def)

lemma py_round_of_int [simp]: "py_round (of_int n) = n"
  by (simp add: py_round_def Let_def)

lemma py_round_0 [simp]: "py_round 0 = 0"
  using py_round_of_int [of 0] by simp

lemma py_round_mono:
  assumes "x \<le> y"
  shows "py_round x \<le> py_round y"
proof (cases "\<lfloor>x\<rfloor> = \<lfloor>y\<rfloor>")
  case True
  then have "x - of_int \<lfloor>x\<rfloor> \<le> y - of_int \<lfloor>y\<rfloor>" using assms by simp
  then show ?thesis using True by (auto simp add: py_round_def Let_def)
next
  case False
  then have "\<lfloor>x\<rfloor> < \<lfloor>y\<rfloor>" using floor_mono [OF assms] by simp
  then have "\<lfloor>x\<rfloor> + 1 \<le> \<lfloor>y\<rfloor>" by simp
  then show ?thesis using py_round_bounds [of x] py_round_bounds [of y] by linarith
qed

lemma abs_py_round_scale:
  assumes "0 \<le> a" and "a \<le> b"
  shows "\<bar>py_round (of_int a * y)\<bar> \<le> \<bar>py_round (of_int b * y)\<bar>"
proof (cases "0 \<le> y")
  case True
  have "0 \<le> of_int a * y" using assms True by simp
  moreover have "of_int a * y \<le> of_int b * y" using assms True by (simp add: mult_right_mono)
  ultimately have "0 \<le> py_round (of_int a * y)" "py_round (of_int a * y) \<le> py_round (of_int b * y)"
    using py_round_mono [of 0 "of_int a * y"] py_round_mono [of "of_int a * y" "of_int b * y"]
    by simp_all
  then show ?thesis by simp
next
  case False
  then have y: "y \<le> 0" by simp
  have "of_int a * y \<le> 0" using assms y by (simp add: mult_nonneg_nonpos)
  moreover have "of_int b * y \<le> of_int a * y" using assms y by (simp add: mult_right_mono_neg)
  ultimately have "py_round (of_int a * y) \<le> 0" "py_round (of_int b * y) \<le> py_round (of_int a * y)"
    using py_round_mono [of "of_int a * y" 0] py_round_mono [of "of_int b * y" "of_int a * y"]
    by simp_all
  then show ?thesis by simp
qed

lemma allowed_iff:
  "fst (evaluate_projected_trade rl c q eq) \<longleftrightarrow>
     0 < eq
     \<and> \<bar>of_int c * q_option_mid q * 100\<bar> / eq \<le> max_capital_at_risk rl
     \<and> (\<bar>of_int c * q_option_mid q * 100\<bar>
          + \<bar>of_int (py_round (- (of_int c * q_delta q * 100))) * q_spot q\<bar>) / eq
         \<le> max_leverage rl
     \<and> \<bar>of_int c * q_gamma q * 100\<bar> \<le> max_abs_gamma rl
     \<and> \<bar>of_int c * q_vega q * 100\<bar> \<le> max_abs_vega rl"
  by (simp add: evaluate_projected_trade_def trade_allowed_def compute_exposures_def Let_def
      CONTRACT_MULTIPLIER_def not_less split: prod.splits)

lemma allowed_zero_fails_all:
  assumes "\<not> fst (evaluate_projected_trade rl 0 q eq)"
  shows "\<not> fst (evaluate_projected_trade rl c q eq)"
proof
  assume c: "fst (evaluate_projected_trade rl c q eq)"
  have pos: "0 < eq" using c by (simp add: allowed_iff)
  have "0 \<le> max_capital_at_risk rl"
    using c pos by (simp add: allowed_iff) (metis abs_ge_zero divide_nonneg_pos order_trans)
  moreover have "0 \<le> max_leverage rl"
  proof -
    have "0 \<le> (\<bar>of_int c * q_option_mid q * 100\<bar>
          + \<bar>of_int (py_round (- (of_int c * q_delta q * 100))) * q_spot q\<bar>) / eq"
      using pos by (intro divide_nonneg_pos add_nonneg_nonneg) simp_all
    then show ?thesis using c by (simp only: allowed_iff) linarith
  qed
  moreover have "0 \<le> max_abs_gamma rl" "0 \<le> max_abs_vega rl"
    using c by (simp_all add: allowed_iff) linarith+
  ultimately have "fst (evaluate_projected_trade rl 0 q eq)"
    using pos by (simp add: allowed_iff)
  then show False using assms by simp
qed

lemma evaluate_projected_trade_antitone:
  assumes "0 \<le> a" and "a \<le> b" and "s = 1 \<or> s = - 1"
    and "fst (evaluate_projected_trade rl (s * b) q eq)"
  shows "fst (evaluate_projected_trade rl (s * a) q eq)"
proof -
  have pos: "0 < eq" using assms(4) by (simp add: allowed_iff)
  have ab: "(of_int a :: real) \<le> of_int b" "0 \<le> (of_int a :: real)" using assms by simp_all
  have m: "\<bar>of_int (s * a) * z\<bar> \<le> \<bar>of_int (s * b) * z\<bar>" for z :: real
  proof -
    have "\<bar>of_int (s * a) * z\<bar> = of_int a * \<bar>z\<bar>" "\<bar>of_int (s * b) * z\<bar> = of_int b * \<bar>z\<bar>"
      using assms(1,2,3) by (auto simp add: abs_mult)
    then show ?thesis using ab by (simp add: mult_right_mono)
  qed
  have r: "\<bar>of_int (py_round (of_int (s * a) * y)) * z\<bar>
           \<le> \<bar>of_int (py_round (of_int (s * b) * y)) * z\<bar>" for y z :: real
  proof -
    have "\<bar>py_round (of_int a * (of_int s * y))\<bar> \<le> \<bar>py_round (of_int b * (of_int s * y))\<bar>"
      using abs_py_round_scale [OF assms(1,2)] by simp
    then have "\<bar>py_round (of_int (s * a) * y)\<bar> \<le> \<bar>py_round (of_int (s * b) * y)\<bar>"
      by (simp add: mult.assoc mult.left_commute mult.commute)
    then have "(of_int \<bar>py_round (of_int (s * a) * y)\<bar> :: real)
               \<le> of_int \<bar>py_round (of_int (s * b) * y)\<bar>"
      by (simp only: of_int_le_iff)
    then show ?thesis by (simp add: abs_mult mult_right_mono)
  qed
  have m1: "\<bar>of_int (s * a) * q_option_mid q * 100\<bar> \<le> \<bar>of_int (s * b) * q_option_mid q * 100\<bar>"
    using m [of "q_option_mid q * 100"] by (simp add: mult.assoc)
  have m2: "\<bar>of_int (s * a) * q_gamma q * 100\<bar> \<le> \<bar>of_int (s * b) * q_gamma q * 100\<bar>"
    using m [of "q_gamma q * 100"] by (simp add: mult.assoc)
  have m3: "\<bar>of_int (s * a) * q_vega q * 100\<bar> \<le> \<bar>of_int (s * b) * q_vega q * 100\<bar>"
    using m [of "q_vega q * 100"] by (simp add: mult.assoc)
  have d1: "\<bar>of_int (s * a) * q_option_mid q * 100\<bar> / eq
            \<le> \<bar>of_int (s * b) * q_option_mid q * 100\<bar> / eq"
    using m1 pos by (simp add: divide_right_mono)
  have d2: "(\<bar>of_int (s * a) * q_option_mid q * 100\<bar>
             + \<bar>of_int (py_round (- (of_int (s * a) * q_delta q * 100))) * q_spot q\<bar>) / eq
            \<le> (\<bar>of_int (s * b) * q_option_mid q * 100\<bar>
               + \<bar>of_int (py_round (- (of_int (s * b) * q_delta q * 100))) * q_spot q\<bar>) / eq"
  proof -
    have e: "- (of_int k * q_delta q * 100) = of_int k * (- (q_delta q * 100))" for k :: int
      by simp
    show ?thesis
      unfolding e using m1 r [of "- (q_delta q * 100)" "q_spot q"] pos
      by (intro divide_right_mono add_mono) simp_all
  qed
  from assms(4) have b:
    "\<bar>of_int (s * b) * q_option_mid q * 100\<bar> / eq \<le> max_capital_at_risk rl"
    "(\<bar>of_int (s * b) * q_option_mid q * 100\<bar>
        + \<bar>of_int (py_round (- (of_int (s * b) * q_delta q * 100))) * q_spot q\<bar>) / eq
       \<le> max_leverage rl"
    "\<bar>of_int (s * b) * q_gamma q * 100\<bar> \<le> max_abs_gamma rl"
    "\<bar>of_int (s * b) * q_vega q * 100\<bar> \<le> max_abs_vega rl"
    unfolding allowed_iff by blast+
  show ?thesis
    unfolding allowed_iff
    using pos d1 d2 m2 m3 b by (intro conjI) linarith+
qed

lemma clamp_zero_or_allowed:
  "clamp_target_to_risk_limits d rl q eq = 0
   \<or> fst (evaluate_projected_trade rl (clamp_target_to_risk_limits d rl q eq) q eq)"
  using clamp_loop_result [of rl q eq 1 0 "\<bar>d\<bar>" 0] clamp_loop_result [of rl q eq "- 1" 0 "\<bar>d\<bar>" 0]
  by (auto simp add: clamp_target_to_risk_limits_def Let_def)

lemma clamp_loop_range:
  "0 \<le> clamp_loop rl q eq s 0 \<bar>d\<bar> 0 \<and> clamp_loop rl q eq s 0 \<bar>d\<bar> 0 \<le> \<bar>d\<bar>"
  using clamp_loop_result [of rl q eq s 0 "\<bar>d\<bar>" 0] by auto

lemma clamp_abs_le: "\<bar>clamp_target_to_risk_limits d rl q eq\<bar> \<le> \<bar>d\<bar>"
  using clamp_loop_range [of rl q eq 1 d] clamp_loop_range [of rl q eq "- 1" d]
  by (auto simp add: clamp_target_to_risk_limits_def Let_def)

lemma clamp_sign:
  "clamp_target_to_risk_limits d rl q eq = 0
   \<or> sgn (clamp_target_to_risk_limits d rl q eq) = sgn d"
  using clamp_loop_range [of rl q eq 1 d] clamp_loop_range [of rl q eq "- 1" d]
  by (auto simp add: clamp_target_to_risk_limits_def Let_def sgn_if)

lemma clamp_eq_sgn_abs:
  "clamp_target_to_risk_limits d rl q eq = sgn d * \<bar>clamp_target_to_risk_limits d rl q eq\<bar>"
  using clamp_loop_range [of rl q eq 1 d] clamp_loop_range [of rl q eq "- 1" d]
  by (auto simp add: clamp_target_to_risk_limits_def Let_def sgn_if)

lemma clamp_upper:
  assumes mono: "\<forall>a b. 0 \<le> a \<and> a \<le> b \<and> b \<le> \<bar>d\<bar>
             \<and> fst (evaluate_projected_trade rl (sgn d * b) q eq)
             \<longrightarrow> fst (evaluate_projected_trade rl (sgn d * a) q eq)"
    and k: "0 \<le> k" "k \<le> \<bar>d\<bar>" "fst (evaluate_projected_trade rl (sgn d * k) q eq)"
  shows "k \<le> \<bar>clamp_target_to_risk_limits d rl q eq\<bar>"
proof (cases "d = 0")
  case True
  then show ?thesis using k by (simp add: clamp_target_to_risk_limits_def)
next
  case False
  have "k \<le> clamp_loop rl q eq (sgn d) 0 \<bar>d\<bar> 0"
    by (rule clamp_loop_max [where H = "\<bar>d\<bar>"]) (use mono k in auto)
  moreover have "clamp_target_to_risk_limits d rl q eq = sgn d * clamp_loop rl q eq (sgn d) 0 \<bar>d\<bar> 0"
    using False by (simp add: clamp_target_to_risk_limits_def Let_def sgn_if)
  ultimately show ?thesis
    using False clamp_loop_range [of rl q eq "sgn d" d] by (simp add: abs_mult)
qed

section \<open>Lemmas on the blocked branches and on the concrete inputs\<close>

lemma clamp_all_fail:
  assumes "\<forall>c. \<not> fst (evaluate_projected_trade rl c q eq)"
  shows "clamp_target_to_risk_limits d rl q eq = 0"
  using clamp_zero_or_allowed [of d rl q eq] assms by blast

lemma equity_exhausted_blocks: "eq \<le> 0 \<Longrightarrow> \<not> fst (evaluate_projected_trade rl c q eq)"
  by (simp add: allowed_iff)

lemma equity_exhausted_reason:
  "eq \<le> 0 \<Longrightarrow> evaluate_projected_trade rl c q eq
     = (False, ''Equity exhausted'',
        compute_exposures c (py_round (- of_int c * q_delta q * 100)) (q_spot q)
          (q_option_mid q) (q_delta q) (q_gamma q) (q_vega q))"
  by (simp add: evaluate_projected_trade_def trade_allowed_def Let_def)

lemma ex_allowed_iff: "fst (evaluate_projected_trade ex_limits c ex_quote 10000) \<longleftrightarrow> \<bar>c\<bar> \<le> 10"
proof -
  have "\<bar>real_of_int c * 2 * 100\<bar> / 10000 \<le> 20 / 100 \<longleftrightarrow> \<bar>c\<bar> \<le> 10"
    by (simp add: abs_mult) linarith
  moreover have "- (real_of_int c * (1 / 2) * 100) = of_int (- (50 * c))" by simp
  then have "py_round (- (real_of_int c * (1 / 2) * 100)) = - (50 * c)"
    by (simp only: py_round_of_int)
  ultimately show ?thesis
    unfolding allowed_iff
    by (auto simp add: ex_limits_def ex_quote_def abs_mult)
qed

lemma ex_reason_car:
  "10 < \<bar>c\<bar> \<Longrightarrow> fst (snd (evaluate_projected_trade ex_limits c ex_quote 10000))
     = ''Blocked: capital-at-risk limit breached''"
proof -
  assume "10 < \<bar>c\<bar>"
  then have "20 / 100 < \<bar>real_of_int c * 2 * 100\<bar> / 10000"
    by (simp add: abs_mult)
  then show ?thesis
    by (simp add: evaluate_projected_trade_def trade_allowed_def Let_def ex_limits_def
        ex_quote_def CONTRACT_MULTIPLIER_def split: prod.splits)
qed

lemma ex_clamp_20: "clamp_target_to_risk_limits 20 ex_limits ex_quote 10000 = 10"
proof -
  let ?r = "clamp_target_to_risk_limits 20 ex_limits ex_quote 10000"
  have "?r = 0 \<or> fst (evaluate_projected_trade ex_limits ?r ex_quote 10000)"
    by (rule clamp_zero_or_allowed)
  then have "\<bar>?r\<bar> \<le> 10" by (auto simp add: ex_allowed_iff)
  moreover have "10 \<le> \<bar>?r\<bar>"
    by (rule clamp_upper) (auto simp add: ex_allowed_iff)
  moreover have "?r = 0 \<or> sgn ?r = sgn 20" by (rule clamp_sign)
  ultimately show ?thesis by (auto simp add: sgn_if split: if_splits)
qed

section \<open>Lemmas on the metrics\<close>

lemma rolling_mean_eq:
  "rolling_mean values w =
     Inr (if values = [] then 0
          else sum_list (drop (length values - nat (max 1 (min w (int (length values))))) values)
               / real (length (drop (length values - nat (max 1 (min w (int (length values))))) values)))"
proof (cases "values = []")
  case True
  then show ?thesis by (simp add: rolling_mean_def)
next
  case False
  then have n: "0 < length values" by simp
  have k: "0 < nat (max 1 (min w (int (length values))))" by simp
  have "length (drop (length values - nat (max 1 (min w (int (length values))))) values) \<noteq> 0"
    unfolding length_drop using n k by arith
  then show ?thesis using False by (simp add: rolling_mean_def py_truediv_def Let_def)
qed

lemma rolling_mean_total: "\<exists>v. rolling_mean values w = Inr v"
  using rolling_mean_eq by blast

lemma safe_price_trend_strength_total: "\<exists>v. safe_price_trend_strength spot prices w = Inr v"
proof -
  obtain b where b: "rolling_mean prices w = Inr b" using rolling_mean_total by blast
  show ?thesis
    by (simp add: safe_price_trend_strength_def b err_bind_def py_truediv_def)
qed

lemma base_metrics_eq:
  assumes "rolling_mean rvs (rv_short_window (config self)) = Inr rv_s"
    and "rolling_mean rvs (rv_medium_window (config self)) = Inr rv_m"
    and "safe_price_trend_strength spot prices (trend_window (config self)) = Inr trend"
    and "rolling_mean (map abs rets) (long_chop_window (config self)) = Inr chop"
    and "rolling_mean rets (long_chop_window (config self)) = Inr avg"
  shows "base_metrics self iv rvs spot prices rets =
     Inr (\<lparr>m_rv_short = rv_s, m_rv_medium = rv_m, m_edge = iv - rv_s,
           m_edge_velocity = (case prev_edge self of None \<Rightarrow> 0 | Some pe \<Rightarrow> iv - rv_s - pe),
           m_trend_strength = trend,
           m_jump_abs_return = (if rets \<noteq> [] then \<bar>last rets\<bar> else 0),
           m_rv_change = \<bar>rv_s - rv_m\<bar>,
           m_choppiness = chop,
           m_chop_score = (if \<bar>avg\<bar> > 1 / 10 ^ 12 then Fin (chop / \<bar>avg\<bar>) else PosInf)\<rparr>,
          self\<lparr>prev_edge := Some (iv - rv_s)\<rparr>)"
  using assms by (simp add: base_metrics_def err_bind_def py_truediv_def Let_def)

section \<open>Lemmas on the adaptive entry\<close>

lemma base_metrics_state:
  assumes "base_metrics self iv rvs spot prices rets = Inr (m, self1)"
  shows "self1 = self\<lparr>prev_edge := Some (m_edge m)\<rparr>"
proof -
  obtain rv_s rv_m trend chop avg where
    "rolling_mean rvs (rv_short_window (config self)) = Inr rv_s"
    "rolling_mean rvs (rv_medium_window (config self)) = Inr rv_m"
    "safe_price_trend_strength spot prices (trend_window (config self)) = Inr trend"
    "rolling_mean (map abs rets) (long_chop_window (config self)) = Inr chop"
    "rolling_mean rets (long_chop_window (config self)) = Inr avg"
    using rolling_mean_total safe_price_trend_strength_total by metis
  from base_metrics_eq [OF this, of iv] assms show ?thesis by auto
qed




lemma rolling_mean_single [simp]: "rolling_mean [x] w = Inr x"
  by (simp add: rolling_mean_eq max_def min_def)

lemma rolling_mean_pair_1 [simp]: "rolling_mean [x, y] 1 = Inr y"
  by (simp add: rolling_mean_eq)

lemma rolling_mean_pair_2 [simp]: "rolling_mean [x, y] 2 = Inr ((x + y) / 2)"
  by (simp add: rolling_mean_eq)

lemma gap_config_sel [simp]:
  "rv_short_window gap_config = 1" "rv_medium_window gap_config = 2"
  "trend_window gap_config = 1" "adaptive_enter_persist_bars gap_config = 2"
  "adaptive_short_edge_enter gap_config = 2 / 100"
  "adaptive_short_trend_enter gap_config = 15 / 1000"
  "adaptive_vov_low gap_config = 1 / 100"
  "adaptive_long_cheapness_enter gap_config = - (4 / 100)"
  "adaptive_vov_high gap_config = 8 / 1000"
  "adaptive_long_trend_max gap_config = 5 / 100"
  "adaptive_confidence_buffer gap_config = 0"
  "min_warmup_bars gap_config = 2"
  by (simp_all add: gap_config_def daily_signal_preset_def min_warmup_bars_def)

section \<open>Lemmas on the simulation loop\<close>


lemma run_loop_chain:
  assumes step: "\<And>s row s' r. Inv s \<Longrightarrow> bar_step md a s row = Inr (s', r)
                  \<Longrightarrow> Inv s' \<and> Pre s r \<and> Post r s'"
    and link: "\<And>r s' r'. Post r s' \<Longrightarrow> Pre s' r' \<Longrightarrow> Link r r'"
    and inv: "Inv st"
    and run: "run_loop md a st bars = Inr (st', rows)"
  shows "(rows \<noteq> [] \<longrightarrow> Pre st (hd rows))
         \<and> (\<forall>t. Suc t < length rows \<longrightarrow> Link (rows ! t) (rows ! Suc t))"
  using inv run
proof (induction bars arbitrary: st st' rows)
  case Nil
  then show ?case by simp
next
  case (Cons b bs)
  from Cons.prems(2) obtain s1 r rows1 where
    b: "bar_step md a st b = Inr (s1, r)" and
    rest: "run_loop md a s1 bs = Inr (st', rows1)" and
    rows: "rows = r # rows1"
    by (auto split: sum.splits prod.splits)
  from step [OF Cons.prems(1) b] have s1: "Inv s1" and pre: "Pre st r" and post: "Post r s1"
    by simp_all
  from Cons.IH [OF s1 rest] have
    ih1: "rows1 \<noteq> [] \<longrightarrow> Pre s1 (hd rows1)" and
    ih2: "\<forall>t. Suc t < length rows1 \<longrightarrow> Link (rows1 ! t) (rows1 ! Suc t)"
    by simp_all
  have "Link (rows ! t) (rows ! Suc t)" if t: "Suc t < length rows" for t
  proof (cases t)
    case 0
    then have ne: "rows1 \<noteq> []" using t rows by auto
    then have "rows1 ! 0 = hd rows1" by (simp add: hd_conv_nth)
    then show ?thesis using 0 rows link [OF post] ih1 ne by simp
  next
    case (Suc k)
    then show ?thesis using t rows ih2 by simp
  qed
  then show ?case using pre rows by simp
qed

lemma base_metrics_total: "\<exists>m s. base_metrics self iv rvs spot prices rets = Inr (m, s)"
proof -
  obtain rv_s rv_m trend chop avg where
    "rolling_mean rvs (rv_short_window (config self)) = Inr rv_s"
    "rolling_mean rvs (rv_medium_window (config self)) = Inr rv_m"
    "safe_price_trend_strength spot prices (trend_window (config self)) = Inr trend"
    "rolling_mean (map abs rets) (long_chop_window (config self)) = Inr chop"
    "rolling_mean rets (long_chop_window (config self)) = Inr avg"
    using rolling_mean_total safe_price_trend_strength_total by metis
  from base_metrics_eq [OF this, of iv] show ?thesis by blast
qed

lemma decide_total: "\<exists>d e. decide self iv rvs spot prices rets = Inr (d, e)"
proof -
  obtain m s where "base_metrics self iv rvs spot prices rets = Inr (m, s)"
    using base_metrics_total by blast
  then show ?thesis
    by (simp add: decide_def err_bind_def Let_def split: prod.splits)
qed

lemma execute_phase_Inr:
  assumes "execute_phase md a st row = Inr (s1, x)"
  shows "x_requested_target_contracts x = pending_target_contracts st"
    and "x_target_before_limits x
         = (if flatten_for_risk (x_overlay x) then 0 else pending_target_contracts st)"
    and "x_executed_target_contracts x
         = fst (risk_limit_check (risk_limits_of a) (quote_of row)
                  (cash st + of_int (option_contracts st) * 100 * b_option_mid row
                     + of_int (hedge_shares st) * b_close row)
                  (flatten_for_risk (x_overlay x)) (x_target_before_limits x)
                  (option_contracts st))"
    and "option_contracts s1 = x_executed_target_contracts x"
    and "signal_engine s1 = signal_engine st"
    and "pending_target_contracts s1 = pending_target_contracts st"
    and "spot_history s1 = spot_history st @ [b_close row]"
    and "rv_history s1 = rv_history st @ [b_realized_vol row]"
    and "append_return (prev_spot st) (b_close row) (return_history st)
         = Inr (return_history s1)"
  using assms
  by (auto simp add: execute_phase_def err_bind_def Let_def execute_option_trade_def
      rebalance_delta_hedge_def split: sum.splits prod.splits if_splits)




lemma queue_phase_Inr:
  assumes "queue_phase md a s1 x row = Inr (s2, r)"
  shows "option_contracts s2 = option_contracts s1"
    and "r_option_contracts r = option_contracts s1"
    and "r_queued_option_contracts r = pending_target_contracts s2"
    and "r_requested_option_contracts r = x_requested_target_contracts x"
    and "r_flatten_for_risk r = flatten_for_risk (x_overlay x)"
    and "r_target_before_limits r = x_target_before_limits x"
    and "r_executed_target_contracts r = x_executed_target_contracts x"
    and "spot_history s2 = spot_history s1"
    and "prev_spot s2 = Some (b_close row)"
    and "\<exists>d. decide (signal_engine s1) (b_iv row) (rv_history s1) (b_close row)
               (spot_history s1) (return_history s1) = Inr (d, signal_engine s2)
             \<and> r_stance r = stance d
             \<and> r_cooldown_remaining r = d_cooldown_remaining d"
    and "\<exists>d nt sp lp. pending_target_contracts s2
             = fst (strategy_gate md a (x_overlay x) d (option_contracts s1) nt sp lp)"
proof -
  obtain d e where d: "decide (signal_engine s1) (b_iv row) (rv_history s1) (b_close row)
               (spot_history s1) (return_history s1) = Inr (d, e)"
    using decide_total by blast
  obtain nt sp lp where g: "strategy_gate md a (x_overlay x) d (option_contracts s1)
       (size_next_target md a d row (x_equity x) (effective_size_factor (x_overlay x)))
       (adaptive_short_pause_remaining s1) (adaptive_long_pause_remaining s1) = (nt, sp, lp)"
    by (metis prod_cases3)
  have s2: "s2 = s1\<lparr>signal_engine := e, adaptive_short_pause_remaining := sp,
                      adaptive_long_pause_remaining := lp, pending_target_contracts := nt,
                      prev_spot := Some (b_close row),
                      prev_option_mid := Some (b_option_mid row)\<rparr>"
    and r: "r = \<lparr>r_requested_option_contracts = x_requested_target_contracts x,
                r_flatten_for_risk = flatten_for_risk (x_overlay x),
                r_target_before_limits = x_target_before_limits x,
                r_executed_target_contracts = x_executed_target_contracts x,
                r_option_contracts = option_contracts s1,
                r_queued_option_contracts = nt,
                r_stance = stance d,
                r_signal = signal d,
                r_cooldown_remaining = d_cooldown_remaining d,
                r_risk_event = x_risk_event x,
                r_risk_block_reason = x_block_reason x\<rparr>"
    using assms by (simp_all add: queue_phase_def d err_bind_def Let_def g)
  show "option_contracts s2 = option_contracts s1"
    and "r_option_contracts r = option_contracts s1"
    and "r_queued_option_contracts r = pending_target_contracts s2"
    and "r_requested_option_contracts r = x_requested_target_contracts x"
    and "r_flatten_for_risk r = flatten_for_risk (x_overlay x)"
    and "r_target_before_limits r = x_target_before_limits x"
    and "r_executed_target_contracts r = x_executed_target_contracts x"
    and "spot_history s2 = spot_history s1"
    and "prev_spot s2 = Some (b_close row)"
    by (simp_all add: s2 r)
  show "\<exists>d. decide (signal_engine s1) (b_iv row) (rv_history s1) (b_close row)
               (spot_history s1) (return_history s1) = Inr (d, signal_engine s2)
             \<and> r_stance r = stance d
             \<and> r_cooldown_remaining r = d_cooldown_remaining d"
    using d by (simp add: s2 r)
  have "pending_target_contracts s2 = fst (strategy_gate md a (x_overlay x) d (option_contracts s1)
       (size_next_target md a d row (x_equity x) (effective_size_factor (x_overlay x)))
       (adaptive_short_pause_remaining s1) (adaptive_long_pause_remaining s1))"
    by (simp add: s2 g)
  then show "\<exists>d nt sp lp. pending_target_contracts s2
             = fst (strategy_gate md a (x_overlay x) d (option_contracts s1) nt sp lp)"
    by blast
qed



lemma bar_step_Inr:
  assumes "bar_step md a st row = Inr (s2, r)"
  shows "\<exists>s1 x. execute_phase md a st row = Inr (s1, x) \<and> queue_phase md a s1 x row = Inr (s2, r)"
  using assms by (auto simp add: bar_step_def err_bind_def split: sum.splits)



lemma queue_phase_total: "\<exists>s2 r. queue_phase md a s1 x row = Inr (s2, r)"
proof -
  obtain d e where d: "decide (signal_engine s1) (b_iv row) (rv_history s1) (b_close row)
               (spot_history s1) (return_history s1) = Inr (d, e)"
    using decide_total by blast
  show ?thesis
    by (simp add: queue_phase_def d err_bind_def Let_def split: prod.splits)
qed

lemma execute_phase_total:
  assumes "append_return (prev_spot st) (b_close row) (return_history st) = Inr rets"
  shows "\<exists>s1 x. execute_phase md a st row = Inr (s1, x)"
  using assms
  by (simp add: execute_phase_def err_bind_def Let_def split: prod.splits)

lemma bar_step_total:
  assumes "append_return (prev_spot st) (b_close row) (return_history st) = Inr rets"
  shows "\<exists>s2 r. bar_step md a st row = Inr (s2, r) \<and> prev_spot s2 = Some (b_close row)"
proof -
  obtain s1 x where e: "execute_phase md a st row = Inr (s1, x)"
    using execute_phase_total [OF assms] by blast
  obtain s2 r where q: "queue_phase md a s1 x row = Inr (s2, r)"
    using queue_phase_total by blast
  have "bar_step md a st row = Inr (s2, r)"
    by (simp add: bar_step_def e err_bind_def q)
  then show ?thesis using queue_phase_Inr(9) [OF q] by blast
qed






lemma decide_short_stance:
  "v_stance (decide_short m c vars) = FLAT \<or> v_stance (decide_short m c vars) = SHORT_VOL"
  by (simp add: decide_short_def Let_def)

lemma decide_dispatch_short:
  assumes "mode s = Short"
  shows "decide_dispatch m n s =
     (if int n < min_warmup_bars (config s) then
        (s, init_vars\<lparr>v_stance := FLAT, v_reason := ''FLAT: warmup''\<rparr>)
      else if cooldown_remaining s > 0 then
        (s\<lparr>cooldown_remaining := cooldown_remaining s - 1\<rparr>,
         init_vars\<lparr>v_stance := FLAT, v_reason := ''FLAT: cooldown'',
                    v_cooldown_active := True\<rparr>)
      else (s, decide_short m (config s) init_vars))"
  using assms by (simp add: decide_dispatch_def)

lemma decide_dispatch_short_facts:
  assumes "mode s = Short" and "decide_dispatch m n s = (e1, v)"
  shows "mode e1 = Short" and "config e1 = config s" and "prev_stance e1 = prev_stance s"
    and "v_stance v = FLAT \<or> v_stance v = SHORT_VOL"
    and "v_stance v = SHORT_VOL \<longrightarrow>
           min_warmup_bars (config s) \<le> int n \<and> cooldown_remaining s \<le> 0"
    and "cooldown_remaining e1 =
           (if min_warmup_bars (config s) \<le> int n \<and> cooldown_remaining s > 0
            then cooldown_remaining s - 1 else cooldown_remaining s)"
    and "min_warmup_bars (config s) \<le> int n \<and> cooldown_remaining s > 0
           \<longrightarrow> v_stance v = FLAT"
proof -
  consider (warm) "int n < min_warmup_bars (config s)"
    | (cool) "\<not> int n < min_warmup_bars (config s)" "cooldown_remaining s > 0"
    | (live) "\<not> int n < min_warmup_bars (config s)" "\<not> cooldown_remaining s > 0"
    by blast
  then have "mode e1 = Short \<and> config e1 = config s \<and> prev_stance e1 = prev_stance s
    \<and> (v_stance v = FLAT \<or> v_stance v = SHORT_VOL)
    \<and> (v_stance v = SHORT_VOL \<longrightarrow>
           min_warmup_bars (config s) \<le> int n \<and> cooldown_remaining s \<le> 0)
    \<and> cooldown_remaining e1 =
           (if min_warmup_bars (config s) \<le> int n \<and> cooldown_remaining s > 0
            then cooldown_remaining s - 1 else cooldown_remaining s)
    \<and> (min_warmup_bars (config s) \<le> int n \<and> cooldown_remaining s > 0
           \<longrightarrow> v_stance v = FLAT)"
  proof cases
    case warm
    then have "e1 = s" "v = init_vars\<lparr>v_stance := FLAT, v_reason := ''FLAT: warmup''\<rparr>"
      using assms(2) by (simp_all add: decide_dispatch_short [OF assms(1)])
    then show ?thesis using warm assms(1) by simp
  next
    case cool
    then have "e1 = s\<lparr>cooldown_remaining := cooldown_remaining s - 1\<rparr>"
      "v = init_vars\<lparr>v_stance := FLAT, v_reason := ''FLAT: cooldown'',
                    v_cooldown_active := True\<rparr>"
      using assms(2) by (simp_all add: decide_dispatch_short [OF assms(1)])
    then show ?thesis using cool assms(1) by simp
  next
    case live
    then have "e1 = s" "v = decide_short m (config s) init_vars"
      using assms(2) by (auto simp add: decide_dispatch_short [OF assms(1)])
    then show ?thesis using live assms(1) decide_short_stance [of m "config s" init_vars] by simp
  qed
  then show "mode e1 = Short" and "config e1 = config s" and "prev_stance e1 = prev_stance s"
    and "v_stance v = FLAT \<or> v_stance v = SHORT_VOL"
    and "v_stance v = SHORT_VOL \<longrightarrow>
           min_warmup_bars (config s) \<le> int n \<and> cooldown_remaining s \<le> 0"
    and "cooldown_remaining e1 =
           (if min_warmup_bars (config s) \<le> int n \<and> cooldown_remaining s > 0
            then cooldown_remaining s - 1 else cooldown_remaining s)"
    and "min_warmup_bars (config s) \<le> int n \<and> cooldown_remaining s > 0
           \<longrightarrow> v_stance v = FLAT"
    by blast+
qed

lemma decide_unfold:
  assumes "base_metrics e iv rvs spot prices rets = Inr (m, s)"
    and "decide_dispatch m (length prices) s = (e1, v)"
    and "decide e iv rvs spot prices rets = Inr (d, e')"
  shows "e' = (if mode e1 = Short \<and> v_stance v = FLAT \<and> prev_stance e1 \<noteq> FLAT
                  \<and> cooldown_bars (config e1) > 0
               then e1\<lparr>cooldown_remaining := cooldown_bars (config e1)\<rparr> else e1)
              \<lparr>prev_stance := v_stance v\<rparr>"
    and "stance d = v_stance v"
    and "d_cooldown_remaining d = cooldown_remaining e'"
  using assms(3) by (auto simp add: decide_def assms(1,2) err_bind_def Let_def)

lemma decide_short_mode:
  assumes "mode e = Short" and "decide e iv rvs spot prices rets = Inr (d, e')"
  shows "mode e' = Short" and "config e' = config e"
    and "prev_stance e' = stance d"
    and "cooldown_remaining e' = d_cooldown_remaining d"
    and "stance d = FLAT \<or> stance d = SHORT_VOL"
    and "stance d = SHORT_VOL \<longrightarrow>
           min_warmup_bars (config e) \<le> int (length prices) \<and> cooldown_remaining e \<le> 0"
    and "d_cooldown_remaining d =
           (if stance d = FLAT \<and> prev_stance e \<noteq> FLAT \<and> cooldown_bars (config e) > 0
            then cooldown_bars (config e)
            else if min_warmup_bars (config e) \<le> int (length prices) \<and> cooldown_remaining e > 0
            then cooldown_remaining e - 1
            else cooldown_remaining e)"
    and "min_warmup_bars (config e) \<le> int (length prices) \<and> cooldown_remaining e > 0
           \<longrightarrow> stance d = FLAT"
proof -
  obtain m s where bm: "base_metrics e iv rvs spot prices rets = Inr (m, s)"
    using base_metrics_total by blast
  have s: "s = e\<lparr>prev_edge := Some (m_edge m)\<rparr>"
    using bm by (rule base_metrics_state)
  have ms: "mode s = Short" "config s = config e" "prev_stance s = prev_stance e"
    "cooldown_remaining s = cooldown_remaining e"
    using assms(1) by (simp_all add: s)
  obtain e1 v where disp: "decide_dispatch m (length prices) s = (e1, v)"
    by (cases "decide_dispatch m (length prices) s") auto
  note f = decide_dispatch_short_facts [OF ms(1) disp, unfolded ms]
  note u = decide_unfold [OF bm disp assms(2)]
  have e': "e' = (if v_stance v = FLAT \<and> prev_stance e \<noteq> FLAT \<and> cooldown_bars (config e) > 0
               then e1\<lparr>cooldown_remaining := cooldown_bars (config e)\<rparr> else e1)
              \<lparr>prev_stance := v_stance v\<rparr>"
    using u(1) f(1,2,3) by simp
  show "mode e' = Short" using f(1) by (simp add: e')
  show "config e' = config e" using f(2) by (simp add: e')
  show "prev_stance e' = stance d" by (simp add: e' u(2))
  show "cooldown_remaining e' = d_cooldown_remaining d" by (simp add: u(3))
  show "stance d = FLAT \<or> stance d = SHORT_VOL" using f(4) by (simp add: u(2))
  show "stance d = SHORT_VOL \<longrightarrow>
           min_warmup_bars (config e) \<le> int (length prices) \<and> cooldown_remaining e \<le> 0"
    using f(5) by (simp add: u(2))
  show "min_warmup_bars (config e) \<le> int (length prices) \<and> cooldown_remaining e > 0
           \<longrightarrow> stance d = FLAT"
    using f(7) by (simp add: u(2))
  have "cooldown_remaining e' =
           (if v_stance v = FLAT \<and> prev_stance e \<noteq> FLAT \<and> cooldown_bars (config e) > 0
            then cooldown_bars (config e) else cooldown_remaining e1)"
    by (simp add: e')
  then show "d_cooldown_remaining d =
           (if stance d = FLAT \<and> prev_stance e \<noteq> FLAT \<and> cooldown_bars (config e) > 0
            then cooldown_bars (config e)
            else if min_warmup_bars (config e) \<le> int (length prices) \<and> cooldown_remaining e > 0
            then cooldown_remaining e - 1
            else cooldown_remaining e)"
    using f(6) by (simp only: u(2) u(3))
qed

lemma bar_step_engine:
  assumes "bar_step md a st row = Inr (s2, r)"
  shows "\<exists>d rets. decide (signal_engine st) (b_iv row) (rv_history st @ [b_realized_vol row])
               (b_close row) (spot_history st @ [b_close row]) rets = Inr (d, signal_engine s2)
             \<and> append_return (prev_spot st) (b_close row) (return_history st) = Inr rets
             \<and> r_stance r = stance d
             \<and> r_cooldown_remaining r = d_cooldown_remaining d"
    and "spot_history s2 = spot_history st @ [b_close row]"
proof -
  obtain s1 x where e: "execute_phase md a st row = Inr (s1, x)"
    and q: "queue_phase md a s1 x row = Inr (s2, r)"
    using bar_step_Inr [OF assms] by blast
  note ex = execute_phase_Inr [OF e]
  note qu = queue_phase_Inr [OF q]
  show "\<exists>d rets. decide (signal_engine st) (b_iv row) (rv_history st @ [b_realized_vol row])
               (b_close row) (spot_history st @ [b_close row]) rets = Inr (d, signal_engine s2)
             \<and> append_return (prev_spot st) (b_close row) (return_history st) = Inr rets
             \<and> r_stance r = stance d
             \<and> r_cooldown_remaining r = d_cooldown_remaining d"
    using qu(10) ex(5,7,8,9) by auto
  show "spot_history s2 = spot_history st @ [b_close row]"
    using qu(8) ex(7) by simp
qed

lemma cooldown_arith:
  fixes c c' W n N :: int and p sd :: Stance
  assumes i1: "0 \<le> c" and i2: "c > 0 \<longrightarrow> p = FLAT"
    and i3: "c > 0 \<or> p \<noteq> FLAT \<longrightarrow> W \<le> n"
    and g5: "sd = FLAT \<or> sd = SHORT_VOL"
    and g6: "sd = SHORT_VOL \<longrightarrow> W \<le> n + 1 \<and> c \<le> 0"
    and g7: "c' = (if sd = FLAT \<and> p \<noteq> FLAT \<and> N > 0 then N
                    else if W \<le> n + 1 \<and> c > 0 then c - 1 else c)"
    and g8: "W \<le> n + 1 \<and> c > 0 \<longrightarrow> sd = FLAT"
  shows "0 \<le> c'"
    and "c > 0 \<longrightarrow> sd = FLAT \<and> c' = c - 1"
    and "p \<noteq> FLAT \<and> sd = FLAT \<and> N > 0 \<longrightarrow> c' = N"
    and "c' > 0 \<longrightarrow> sd = FLAT"
    and "c' > 0 \<or> sd \<noteq> FLAT \<longrightarrow> W \<le> n + 1"
proof -
  show "0 \<le> c'" using i1 g7 by (simp split: if_splits)
  show "c > 0 \<longrightarrow> sd = FLAT \<and> c' = c - 1"
  proof
    assume c: "c > 0"
    then have p: "p = FLAT" using i2 by simp
    have "W \<le> n" using c i3 by simp
    then have w: "W \<le> n + 1" by simp
    then have "sd = FLAT" using c g8 by simp
    moreover have "c' = c - 1" using g7 p w c by simp
    ultimately show "sd = FLAT \<and> c' = c - 1" by simp
  qed
  show "p \<noteq> FLAT \<and> sd = FLAT \<and> N > 0 \<longrightarrow> c' = N" using g7 by simp
  show "c' > 0 \<longrightarrow> sd = FLAT"
  proof
    assume "c' > 0"
    show "sd = FLAT"
    proof (rule ccontr)
      assume "sd \<noteq> FLAT"
      then have "sd = SHORT_VOL" using g5 by simp
      then have "c \<le> 0" "c' = c" using g6 g7 by simp_all
      then show False using \<open>c' > 0\<close> by simp
    qed
  qed
  show "c' > 0 \<or> sd \<noteq> FLAT \<longrightarrow> W \<le> n + 1"
  proof
    assume a: "c' > 0 \<or> sd \<noteq> FLAT"
    show "W \<le> n + 1"
    proof (cases "sd = FLAT")
      case False
      then show ?thesis using g5 g6 by simp
    next
      case True
      then have "c' > 0" using a by simp
      then have "c > 0 \<or> p \<noteq> FLAT" using g7 i1 by (simp split: if_splits)
      then show ?thesis using i3 by linarith
    qed
  qed
qed

lemma short_step:
  assumes inv: "mode (signal_engine s) = Short" "config (signal_engine s) = signal_config"
      "0 \<le> cooldown_remaining (signal_engine s)"
      "cooldown_remaining (signal_engine s) > 0 \<longrightarrow> prev_stance (signal_engine s) = FLAT"
      "cooldown_remaining (signal_engine s) > 0 \<or> prev_stance (signal_engine s) \<noteq> FLAT
         \<longrightarrow> min_warmup_bars signal_config \<le> int (length (spot_history s))"
    and b: "bar_step Short a s row = Inr (s', r)"
  shows "mode (signal_engine s') = Short" and "config (signal_engine s') = signal_config"
    and "0 \<le> cooldown_remaining (signal_engine s')"
    and "cooldown_remaining (signal_engine s') > 0 \<longrightarrow> prev_stance (signal_engine s') = FLAT"
    and "cooldown_remaining (signal_engine s') > 0 \<or> prev_stance (signal_engine s') \<noteq> FLAT
         \<longrightarrow> min_warmup_bars signal_config \<le> int (length (spot_history s'))"
    and "r_stance r = prev_stance (signal_engine s')"
    and "r_cooldown_remaining r = cooldown_remaining (signal_engine s')"
    and "cooldown_remaining (signal_engine s) > 0
         \<longrightarrow> r_stance r = FLAT
             \<and> r_cooldown_remaining r = cooldown_remaining (signal_engine s) - 1"
    and "prev_stance (signal_engine s) \<noteq> FLAT \<and> r_stance r = FLAT
           \<and> cooldown_bars signal_config > 0
         \<longrightarrow> r_cooldown_remaining r = cooldown_bars signal_config"
proof -
  from bar_step_engine [OF b] obtain d rets where
    d: "decide (signal_engine s) (b_iv row) (rv_history s @ [b_realized_vol row])
             (b_close row) (spot_history s @ [b_close row]) rets = Inr (d, signal_engine s')"
    and rs: "r_stance r = stance d" and rc: "r_cooldown_remaining r = d_cooldown_remaining d"
    and h: "spot_history s' = spot_history s @ [b_close row]"
    by blast
  have len: "int (length (spot_history s @ [b_close row])) = int (length (spot_history s)) + 1"
    by simp
  note f = decide_short_mode [OF inv(1) d, unfolded inv(2) len]
  note ar = cooldown_arith [OF inv(3,4,5) f(5,6,7,8)]
  show "mode (signal_engine s') = Short" by (rule f(1))
  show "config (signal_engine s') = signal_config" by (rule f(2))
  show "r_stance r = prev_stance (signal_engine s')" using f(3) rs by simp
  show "r_cooldown_remaining r = cooldown_remaining (signal_engine s')" using f(4) rc by simp
  show "0 \<le> cooldown_remaining (signal_engine s')" using ar(1) f(4) by simp
  show "cooldown_remaining (signal_engine s') > 0 \<longrightarrow> prev_stance (signal_engine s') = FLAT"
    using ar(4) f(3,4) by simp
  show "cooldown_remaining (signal_engine s') > 0 \<or> prev_stance (signal_engine s') \<noteq> FLAT
         \<longrightarrow> min_warmup_bars signal_config \<le> int (length (spot_history s'))"
    using ar(5) f(3,4) unfolding h len by simp
  show "cooldown_remaining (signal_engine s) > 0
         \<longrightarrow> r_stance r = FLAT
             \<and> r_cooldown_remaining r = cooldown_remaining (signal_engine s) - 1"
    using ar(2) rs rc by simp
  show "prev_stance (signal_engine s) \<noteq> FLAT \<and> r_stance r = FLAT
           \<and> cooldown_bars signal_config > 0
         \<longrightarrow> r_cooldown_remaining r = cooldown_bars signal_config"
    using ar(3) rs rc by simp
qed

section \<open>Lemmas on an adaptive engine started from scratch\<close>



lemma boundary_config_sel [simp]:
  "rv_short_window boundary_config = 1" "rv_medium_window boundary_config = 2"
  "trend_window boundary_config = 1" "adaptive_enter_persist_bars boundary_config = 2"
  "adaptive_short_edge_enter boundary_config = 2 / 100"
  "adaptive_short_trend_enter boundary_config = 15 / 1000"
  "adaptive_vov_low boundary_config = 1 / 100"
  "adaptive_long_cheapness_enter boundary_config = - (4 / 100)"
  "adaptive_vov_high boundary_config = 8 / 1000"
  "adaptive_long_trend_max boundary_config = 5 / 100"
  "adaptive_confidence_buffer boundary_config = 337 / 10000"
  "min_warmup_bars boundary_config = 2"
  by (simp_all add: boundary_config_def daily_signal_preset_def min_warmup_bars_def)










section \<open>Lemmas on a short-mode run over a constant price series\<close>

lemma cooldown_config_sel [simp]:
  "rv_short_window cooldown_config = 1" "rv_medium_window cooldown_config = 2"
  "trend_window cooldown_config = 1" "long_chop_window cooldown_config = 10"
  "cooldown_bars cooldown_config = 3" "min_warmup_bars cooldown_config = 2"
  "short_edge_threshold cooldown_config = 5 / 1000"
  "short_edge_collapse_tolerance cooldown_config = 2 / 100"
  "short_trend_threshold cooldown_config = 3 / 100"
  "short_jump_threshold cooldown_config = 3 / 100"
  "short_rv_change_threshold cooldown_config = 20 / 100"
  by (simp_all add: cooldown_config_def daily_signal_preset_def min_warmup_bars_def)

lemma engine_at_sel [simp]:
  "mode (engine_at pe ps cd) = Short" "config (engine_at pe ps cd) = cooldown_config"
  "prev_edge (engine_at pe ps cd) = pe" "prev_stance (engine_at pe ps cd) = ps"
  "cooldown_remaining (engine_at pe ps cd) = cd"
  by (simp_all add: engine_at_def init_engine_def)

lemma engine_at_upd [simp]:
  "(engine_at pe ps cd)\<lparr>prev_edge := pe'\<rparr> = engine_at pe' ps cd"
  "(engine_at pe ps cd)\<lparr>prev_stance := ps'\<rparr> = engine_at pe ps' cd"
  "(engine_at pe ps cd)\<lparr>cooldown_remaining := cd'\<rparr> = engine_at pe ps cd'"
  by (simp_all add: engine_at_def)

lemma init_engine_at: "init_engine Short cooldown_config = engine_at None FLAT 0"
  by (simp add: engine_at_def init_engine_def)

lemma sum_list_const:
  "set ys \<subseteq> {c} \<Longrightarrow> sum_list ys = real (length ys) * (c :: real)"
  by (induction ys) (auto simp add: algebra_simps)

lemma rolling_mean_const:
  assumes "xs \<noteq> []" and "set xs \<subseteq> {c}"
  shows "rolling_mean xs w = Inr c"
proof -
  define ys where "ys = drop (length xs - nat (max 1 (min w (int (length xs))))) xs"
  have n: "0 < length xs" using assms(1) by simp
  have k: "0 < nat (max 1 (min w (int (length xs))))" by simp
  have "length ys \<noteq> 0" unfolding ys_def length_drop using n k by arith
  moreover have "set ys \<subseteq> {c}" unfolding ys_def using assms(2) set_drop_subset by fastforce
  ultimately have "sum_list ys / real (length ys) = c"
    by (simp add: sum_list_const)
  moreover have "rolling_mean xs w = Inr (sum_list ys / real (length ys))"
    unfolding ys_def using assms(1) by (simp only: rolling_mean_eq if_False)
  ultimately show ?thesis by (simp only:)
qed

lemma rolling_mean_zeros:
  assumes "set xs \<subseteq> {0}"
  shows "rolling_mean xs w = Inr 0"
proof (cases "xs = []")
  case True
  then show ?thesis by (simp add: rolling_mean_def)
next
  case False
  then show ?thesis using assms by (rule rolling_mean_const)
qed

lemma const_metrics:
  assumes cfg: "config e = cooldown_config"
    and rv: "rvs \<noteq> []" "set rvs \<subseteq> {20 / 100}"
    and pr: "prices \<noteq> []" "set prices \<subseteq> {100}"
    and rt: "set rets \<subseteq> {0}"
  shows "base_metrics e iv rvs 100 prices rets =
     Inr (\<lparr>m_rv_short = 20 / 100, m_rv_medium = 20 / 100, m_edge = iv - 20 / 100,
           m_edge_velocity = (case prev_edge e of None \<Rightarrow> 0 | Some pe \<Rightarrow> iv - 20 / 100 - pe),
           m_trend_strength = 0, m_jump_abs_return = 0, m_rv_change = 0,
           m_choppiness = 0, m_chop_score = PosInf\<rparr>,
          e\<lparr>prev_edge := Some (iv - 20 / 100)\<rparr>)"
proof -
  have r1: "rolling_mean rvs (rv_short_window (config e)) = Inr (20 / 100)"
    and r2: "rolling_mean rvs (rv_medium_window (config e)) = Inr (20 / 100)"
    using rv by (rule rolling_mean_const)+
  have "rolling_mean prices (trend_window (config e)) = Inr 100"
    using pr by (rule rolling_mean_const)
  then have t: "safe_price_trend_strength 100 prices (trend_window (config e)) = Inr 0"
    by (simp add: safe_price_trend_strength_def err_bind_def py_truediv_def)
  have "set (map abs rets) \<subseteq> {0}" using rt by auto
  then have c: "rolling_mean (map abs rets) (long_chop_window (config e)) = Inr 0"
    by (rule rolling_mean_zeros)
  have a: "rolling_mean rets (long_chop_window (config e)) = Inr 0"
    using rt by (rule rolling_mean_zeros)
  have j: "(if rets \<noteq> [] then \<bar>last rets\<bar> else 0) = 0"
    using rt last_in_set by fastforce
  show ?thesis
    using base_metrics_eq [OF r1 r2 t c a, of iv] by (simp add: j)
qed

lemma decide_eval_warm:
  assumes "rvs \<noteq> []" "set rvs \<subseteq> {20 / 100}" "prices \<noteq> []" "set prices \<subseteq> {100}"
    "set rets \<subseteq> {0}" and w: "int (length prices) < 2"
  shows "\<exists>d. decide (engine_at pe FLAT cd) iv rvs 100 prices rets
              = Inr (d, engine_at (Some (iv - 20 / 100)) FLAT cd)
            \<and> stance d = FLAT"
proof -
  note bm = const_metrics [OF engine_at_sel(2) assms(1-5), of pe FLAT cd iv]
  show ?thesis
    using w by (simp add: decide_def bm err_bind_def decide_dispatch_short Let_def)
qed

lemma decide_eval_live:
  assumes "rvs \<noteq> []" "set rvs \<subseteq> {20 / 100}" "prices \<noteq> []" "set prices \<subseteq> {100}"
    "set rets \<subseteq> {0}" and w: "2 \<le> int (length prices)"
  shows "\<exists>d. decide (engine_at (Some pe) ps 0) iv rvs 100 prices rets
              = Inr (d, engine_at (Some (iv - 20 / 100))
                       (if 5 / 1000 \<le> iv - 20 / 100 \<and> - (2 / 100) \<le> iv - 20 / 100 - pe
                        then SHORT_VOL else FLAT)
                       (if \<not> (5 / 1000 \<le> iv - 20 / 100 \<and> - (2 / 100) \<le> iv - 20 / 100 - pe)
                           \<and> ps \<noteq> FLAT then 3 else 0))
            \<and> stance d = (if 5 / 1000 \<le> iv - 20 / 100 \<and> - (2 / 100) \<le> iv - 20 / 100 - pe
                          then SHORT_VOL else FLAT)"
proof -
  note bm = const_metrics [OF engine_at_sel(2) assms(1-5), of "Some pe" ps 0 iv]
  show ?thesis
    using w by (simp add: decide_def bm err_bind_def decide_dispatch_short decide_short_def
        init_vars_def Let_def)
qed


lemma queue_phase_histories:
  assumes "queue_phase md a s1 x row = Inr (s2, r)"
  shows "rv_history s2 = rv_history s1" and "return_history s2 = return_history s1"
proof -
  obtain d e where d: "decide (signal_engine s1) (b_iv row) (rv_history s1) (b_close row)
               (spot_history s1) (return_history s1) = Inr (d, e)"
    using decide_total by blast
  obtain nt sp lp where g: "strategy_gate md a (x_overlay x) d (option_contracts s1)
       (size_next_target md a d row (x_equity x) (effective_size_factor (x_overlay x)))
       (adaptive_short_pause_remaining s1) (adaptive_long_pause_remaining s1) = (nt, sp, lp)"
    by (metis prod_cases3)
  have s2: "s2 = s1\<lparr>signal_engine := e, adaptive_short_pause_remaining := sp,
                      adaptive_long_pause_remaining := lp, pending_target_contracts := nt,
                      prev_spot := Some (b_close row),
                      prev_option_mid := Some (b_option_mid row)\<rparr>"
    using assms by (simp add: queue_phase_def d err_bind_def Let_def g)
  show "rv_history s2 = rv_history s1" and "return_history s2 = return_history s1"
    by (simp_all add: s2)
qed

lemma const_bar_step:
  assumes b: "bar_step md a s row = Inr (s', r)"
    and row: "b_close row = 100" "b_realized_vol row = 20 / 100"
    and h: "set (rv_history s) \<subseteq> {20 / 100}" "set (spot_history s) \<subseteq> {100}"
      "set (return_history s) \<subseteq> {0}"
    and p: "prev_spot s = None \<or> prev_spot s = Some 100"
  shows "rv_history s' \<noteq> []" and "set (rv_history s') \<subseteq> {20 / 100}"
    and "spot_history s' \<noteq> []" and "set (spot_history s') \<subseteq> {100}"
    and "set (return_history s') \<subseteq> {0}"
    and "prev_spot s' = Some 100"
    and "length (spot_history s') = Suc (length (spot_history s))"
    and "\<exists>d. decide (signal_engine s) (b_iv row) (rv_history s') 100 (spot_history s')
               (return_history s') = Inr (d, signal_engine s')
             \<and> r_stance r = stance d
             \<and> r_cooldown_remaining r = d_cooldown_remaining d"
proof -
  obtain s1 x where e: "execute_phase md a s row = Inr (s1, x)"
    and q: "queue_phase md a s1 x row = Inr (s', r)"
    using bar_step_Inr [OF b] by blast
  note ex = execute_phase_Inr [OF e]
  note qu = queue_phase_Inr [OF q]
  note qh = queue_phase_histories [OF q]
  have rv: "rv_history s' = rv_history s @ [20 / 100]"
    using qh(1) ex(8) row(2) by simp
  have sp: "spot_history s' = spot_history s @ [100]"
    using qu(8) ex(7) row(1) by simp
  have rt: "append_return (prev_spot s) 100 (return_history s) = Inr (return_history s')"
    using ex(9) qh(2) row(1) by simp
  have "return_history s' = return_history s \<or> return_history s' = return_history s @ [0]"
    using rt p by (auto simp add: append_return_def)
  then have rs: "set (return_history s') \<subseteq> {0}"
    using h(3) by auto
  show "rv_history s' \<noteq> []" and "set (rv_history s') \<subseteq> {20 / 100}"
    using rv h(1) by simp_all
  show "spot_history s' \<noteq> []" and "set (spot_history s') \<subseteq> {100}"
    and "length (spot_history s') = Suc (length (spot_history s))"
    using sp h(2) by simp_all
  show "set (return_history s') \<subseteq> {0}" by (rule rs)
  show "prev_spot s' = Some 100" using qu(9) row(1) by simp
  show "\<exists>d. decide (signal_engine s) (b_iv row) (rv_history s') 100 (spot_history s')
               (return_history s') = Inr (d, signal_engine s')
             \<and> r_stance r = stance d
             \<and> r_cooldown_remaining r = d_cooldown_remaining d"
  proof -
    from qu(10) obtain d where
      d: "decide (signal_engine s1) (b_iv row) (rv_history s1) (b_close row)
               (spot_history s1) (return_history s1) = Inr (d, signal_engine s')"
      and r: "r_stance r = stance d" "r_cooldown_remaining r = d_cooldown_remaining d"
      by blast
    have eqs: "signal_engine s1 = signal_engine s" "rv_history s1 = rv_history s'"
      "spot_history s1 = spot_history s'" "return_history s1 = return_history s'"
      "b_close row = 100"
      using ex(5) qh qu(8) row(1) by simp_all
    show ?thesis
      using d r unfolding eqs by blast
  qed
qed

lemma cooldown_run:
  "\<exists>st rows.
     run_single_mode Short default_args cooldown_config
       [ex_bar, ex_bar, low_iv_bar, ex_bar] = Inr (st, rows)
     \<and> length rows = 4
     \<and> r_stance (rows ! 1) = SHORT_VOL \<and> r_stance (rows ! 2) = FLAT"
proof -
  let ?s0 = "init_state Short cooldown_config"
  let ?low = "low_iv_bar"
  have rw: "b_close ex_bar = 100" "b_realized_vol ex_bar = 20 / 100"
    "b_close ?low = 100" "b_realized_vol ?low = 20 / 100"
    "b_iv ex_bar = 25 / 100" "b_iv ?low = 20 / 100"
    by (simp_all add: ex_bar_def low_iv_bar_def)
  have ar: "append_return (Some 100) 100 hs = Inr (hs @ [ln (100 / 100)])" for hs
    by (simp add: append_return_def)
  have s0: "rv_history ?s0 = []" "spot_history ?s0 = []" "return_history ?s0 = []"
    "prev_spot ?s0 = None" "signal_engine ?s0 = engine_at None FLAT 0"
    by (simp_all add: init_state_def init_engine_at)
  \<comment> \<open>bar 1: warm-up\<close>
  have a0: "append_return (prev_spot ?s0) (b_close ex_bar) (return_history ?s0) = Inr []"
    by (simp add: append_return_def s0)
  obtain s1 r1 where b1: "bar_step Short default_args ?s0 ex_bar = Inr (s1, r1)"
    using bar_step_total [OF a0] by blast
  note c1 = const_bar_step [OF b1 rw(1,2), unfolded s0 rw]
  have c1': "rv_history s1 \<noteq> []" "set (rv_history s1) \<subseteq> {20 / 100}"
    "spot_history s1 \<noteq> []" "set (spot_history s1) \<subseteq> {100}"
    "set (return_history s1) \<subseteq> {0}" "prev_spot s1 = Some 100"
    "length (spot_history s1) = 1"
    using c1(1-7) by simp_all
  obtain d1 where d1: "decide (engine_at None FLAT 0) (25 / 100) (rv_history s1) 100
      (spot_history s1) (return_history s1) = Inr (d1, signal_engine s1)"
    using c1(8) by auto
  have w1: "int (length (spot_history s1)) < 2" using c1'(7) by simp
  have e1: "signal_engine s1 = engine_at (Some (25 / 100 - 20 / 100)) FLAT 0"
    using decide_eval_warm [OF c1'(1,2,3,4,5) w1, of None 0 "25 / 100"] d1 by auto
  \<comment> \<open>bar 2: the filters pass\<close>
  have a1: "append_return (prev_spot s1) (b_close ex_bar) (return_history s1)
            = Inr (return_history s1 @ [ln (100 / 100)])"
    unfolding c1'(6) rw by (rule ar)
  obtain s2 r2 where b2: "bar_step Short default_args s1 ex_bar = Inr (s2, r2)"
    using bar_step_total [OF a1] by blast
  have p1: "prev_spot s1 = None \<or> prev_spot s1 = Some 100" using c1'(6) by simp
  note c2 = const_bar_step [OF b2 rw(1,2) c1'(2,4,5) p1, unfolded rw e1]
  have l2: "2 \<le> int (length (spot_history s2))" using c2(7) c1'(7) by simp
  obtain d2 where d2: "decide (engine_at (Some (25 / 100 - 20 / 100)) FLAT 0) (25 / 100)
      (rv_history s2) 100 (spot_history s2) (return_history s2) = Inr (d2, signal_engine s2)"
    and r2: "r_stance r2 = stance d2"
    using c2(8) by auto
  have e2: "signal_engine s2 = engine_at (Some (25 / 100 - 20 / 100)) SHORT_VOL 0"
    and st2: "r_stance r2 = SHORT_VOL"
    using decide_eval_live [OF c2(1,2,3,4,5) l2, of "25 / 100 - 20 / 100" FLAT "25 / 100"] d2 r2
    by auto
  \<comment> \<open>bar 3: the edge is gone\<close>
  have a2: "append_return (prev_spot s2) (b_close ?low) (return_history s2)
            = Inr (return_history s2 @ [ln (100 / 100)])"
    unfolding c2(6) rw by (rule ar)
  obtain s3 r3 where b3: "bar_step Short default_args s2 ?low = Inr (s3, r3)"
    using bar_step_total [OF a2] by blast
  have p2: "prev_spot s2 = None \<or> prev_spot s2 = Some 100" using c2(6) by simp
  note c3 = const_bar_step [OF b3 rw(3,4) c2(2,4,5) p2, unfolded rw e2]
  have l3: "2 \<le> int (length (spot_history s3))" using c3(7) l2 by simp
  obtain d3 where d3: "decide (engine_at (Some (25 / 100 - 20 / 100)) SHORT_VOL 0) (20 / 100)
      (rv_history s3) 100 (spot_history s3) (return_history s3) = Inr (d3, signal_engine s3)"
    and r3: "r_stance r3 = stance d3"
    using c3(8) by auto
  have st3: "r_stance r3 = FLAT"
    using decide_eval_live [OF c3(1,2,3,4,5) l3, of "25 / 100 - 20 / 100" SHORT_VOL "20 / 100"]
      d3 r3 by auto
  \<comment> \<open>bar 4\<close>
  have a3: "append_return (prev_spot s3) (b_close ex_bar) (return_history s3)
            = Inr (return_history s3 @ [ln (100 / 100)])"
    unfolding c3(6) rw by (rule ar)
  obtain s4 r4 where b4: "bar_step Short default_args s3 ex_bar = Inr (s4, r4)"
    using bar_step_total [OF a3] by blast
  have run: "run_single_mode Short default_args cooldown_config [ex_bar, ex_bar, ?low, ex_bar]
        = Inr (s4, [r1, r2, r3, r4])"
    by (simp add: run_single_mode_def b1 b2 b3 b4)
  show ?thesis
  proof (intro exI conjI)
    show "run_single_mode Short default_args cooldown_config [ex_bar, ex_bar, ?low, ex_bar]
        = Inr (s4, [r1, r2, r3, r4])" by (rule run)
    show "length [r1, r2, r3, r4] = 4" by simp
    show "r_stance ([r1, r2, r3, r4] ! 1) = SHORT_VOL" using st2 by simp
    show "r_stance ([r1, r2, r3, r4] ! 2) = FLAT" using st3 by simp
  qed
qed

section \<open>The kill switch\<close>

text \<open>
  Claim C2. With the green threshold below the red one (the start-up validation rejects
  any other configuration), \<open>KillSwitch.evaluate\<close> returns: at or below the green
  threshold the default action (zone green, size factor 1, no reason); above it and at
  or below the red threshold zone yellow with the yellow factor and the single reason
  \<open>GAMMA_YELLOW_THROTTLE\<close>; above the red threshold zone red with the red factor and
  \<open>GAMMA_RED_THROTTLE\<close>, followed by \<open>GAMMA_RED_DRAWDOWN_KILL\<close> exactly when the
  drawdown exceeds the kill threshold. Flattening is requested exactly in zone red with
  the drawdown above the kill threshold, and the zone does not depend on the drawdown.
\<close>

theorem kill_switch_zones:
  assumes "gamma_green_threshold ks < gamma_red_threshold ks"
  shows "(g \<le> gamma_green_threshold ks \<longrightarrow>
            evaluate ks g dd =
              \<lparr>flatten_positions = False, size_factor = 1, zone = ''green'', reasons = []\<rparr>)
       \<and> (gamma_green_threshold ks < g \<and> g \<le> gamma_red_threshold ks \<longrightarrow>
            evaluate ks g dd =
              \<lparr>flatten_positions = False, size_factor = gamma_yellow_size_factor ks,
               zone = ''yellow'', reasons = [''GAMMA_YELLOW_THROTTLE'']\<rparr>)
       \<and> (gamma_red_threshold ks < g \<longrightarrow>
            evaluate ks g dd =
              \<lparr>flatten_positions = (dd > kill_drawdown_threshold ks),
               size_factor = gamma_red_size_factor ks, zone = ''red'',
               reasons = ''GAMMA_RED_THROTTLE''
                 # (if dd > kill_drawdown_threshold ks then [''GAMMA_RED_DRAWDOWN_KILL'']
                    else [])\<rparr>)
       \<and> (flatten_positions (evaluate ks g dd) \<longleftrightarrow>
            zone (evaluate ks g dd) = ''red'' \<and> dd > kill_drawdown_threshold ks)
       \<and> zone (evaluate ks g dd) = zone (evaluate ks g dd')"
  using assms by (simp add: evaluate_def new_KillSwitchAction_def Let_def)

theorem kill_switch_zones_witness:
  "gamma_green_threshold default_kill_switch < gamma_red_threshold default_kill_switch
   \<and> evaluate default_kill_switch 3 (15 / 100) =
       \<lparr>flatten_positions = False, size_factor = 1, zone = ''green'', reasons = []\<rparr>
   \<and> evaluate default_kill_switch 7 (15 / 100) =
       \<lparr>flatten_positions = False, size_factor = 1 / 2, zone = ''yellow'',
        reasons = [''GAMMA_YELLOW_THROTTLE'']\<rparr>
   \<and> evaluate default_kill_switch 12 (15 / 100) =
       \<lparr>flatten_positions = True, size_factor = 1 / 4, zone = ''red'',
        reasons = [''GAMMA_RED_THROTTLE'', ''GAMMA_RED_DRAWDOWN_KILL'']\<rparr>
   \<and> evaluate default_kill_switch 12 (10 / 100) =
       \<lparr>flatten_positions = False, size_factor = 1 / 4, zone = ''red'',
        reasons = [''GAMMA_RED_THROTTLE'']\<rparr>"
proof -
  have h: "gamma_green_threshold default_kill_switch < gamma_red_threshold default_kill_switch"
    by (simp add: default_kill_switch_def)
  show ?thesis
    using h kill_switch_zones [OF h, of 3 "15 / 100"] kill_switch_zones [OF h, of 7 "15 / 100"]
      kill_switch_zones [OF h, of 12 "15 / 100"] kill_switch_zones [OF h, of 12 "10 / 100"]
    by (simp add: default_kill_switch_def)
qed

section \<open>The execution layer\<close>

text \<open>
  Claim C10. \<open>execute_option_trade\<close> and \<open>rebalance_delta_hedge\<close> always return the
  requested target as the new position, and the new cash is the old cash minus the
  signed trade notional, the fees and the slippage. Nothing bounds the result below:
  for every bound there is a purchase, at the loop's default costs, that leaves the
  cash under it.
\<close>

theorem execution_unconditional:
  "new_contracts (execute_option_trade cur tgt price c fee bps) = tgt
   \<and> traded_contracts (execute_option_trade cur tgt price c fee bps) = tgt - cur
   \<and> ot_cash (execute_option_trade cur tgt price c fee bps)
       = c - of_int (tgt - cur) * price * 100 - of_int \<bar>tgt - cur\<bar> * fee
           - of_int \<bar>tgt - cur\<bar> * price * 100 * (bps / 10000)
   \<and> new_shares (rebalance_delta_hedge curs tgts sp c fee' bps') = tgts
   \<and> traded_shares (rebalance_delta_hedge curs tgts sp c fee' bps') = tgts - curs
   \<and> ht_cash (rebalance_delta_hedge curs tgts sp c fee' bps')
       = c - of_int (tgts - curs) * sp - of_int \<bar>tgts - curs\<bar> * fee'
           - of_int \<bar>tgts - curs\<bar> * sp * (bps' / 10000)
   \<and> (\<exists>n. ot_cash (execute_option_trade 0 n 1 c default_fee_per_contract
                      default_option_slippage_bps) < B)
   \<and> (\<exists>n. ht_cash (rebalance_delta_hedge 0 n 1 c default_fee_per_share
                      default_hedge_slippage_bps) < B)"
proof -
  obtain k :: int where "max (c - B) 0 < of_int k"
    using ex_less_of_int by blast
  then have k: "c - B < of_int k" "0 \<le> k"
    by simp_all
  have a: "ot_cash (execute_option_trade 0 k 1 c default_fee_per_contract
                      default_option_slippage_bps) < B"
    using k by (simp add: execute_option_trade_def Let_def CONTRACT_MULTIPLIER_def
        default_fee_per_contract_def default_option_slippage_bps_def)
  have b: "ht_cash (rebalance_delta_hedge 0 k 1 c default_fee_per_share
                      default_hedge_slippage_bps) < B"
    using k by (simp add: rebalance_delta_hedge_def Let_def
        default_fee_per_share_def default_hedge_slippage_bps_def)
  show ?thesis
    using a b
    by (auto simp add: execute_option_trade_def rebalance_delta_hedge_def Let_def
        CONTRACT_MULTIPLIER_def)
qed

section \<open>The risk-budget clamp\<close>

text \<open>
  Claim C7. The value returned by \<open>clamp_target_to_risk_limits\<close> is 0 or has the sign
  of the desired count, and its magnitude does not exceed the desired magnitude; it
  passes the limiter whenever a position of 0 does; it is 0 when a position of 0 fails;
  and if passing is inherited by smaller magnitudes of the desired sign, then every
  passing magnitude up to the desired one is at most the magnitude returned, which
  passes itself.
\<close>

theorem clamp_target_properties:
  "(clamp_target_to_risk_limits d rl q eq = 0
      \<or> sgn (clamp_target_to_risk_limits d rl q eq) = sgn d)
   \<and> \<bar>clamp_target_to_risk_limits d rl q eq\<bar> \<le> \<bar>d\<bar>
   \<and> (fst (evaluate_projected_trade rl 0 q eq)
        \<longrightarrow> fst (evaluate_projected_trade rl (clamp_target_to_risk_limits d rl q eq) q eq))
   \<and> (\<not> fst (evaluate_projected_trade rl 0 q eq)
        \<longrightarrow> clamp_target_to_risk_limits d rl q eq = 0)
   \<and> ((\<forall>a b. 0 \<le> a \<and> a \<le> b \<and> b \<le> \<bar>d\<bar>
               \<and> fst (evaluate_projected_trade rl (sgn d * b) q eq)
               \<longrightarrow> fst (evaluate_projected_trade rl (sgn d * a) q eq))
        \<longrightarrow> (\<forall>k. 0 \<le> k \<and> k \<le> \<bar>d\<bar> \<and> fst (evaluate_projected_trade rl (sgn d * k) q eq)
               \<longrightarrow> k \<le> \<bar>clamp_target_to_risk_limits d rl q eq\<bar>
                   \<and> fst (evaluate_projected_trade rl
                            (sgn d * \<bar>clamp_target_to_risk_limits d rl q eq\<bar>) q eq)))"
proof (intro conjI impI allI)
  show "clamp_target_to_risk_limits d rl q eq = 0
        \<or> sgn (clamp_target_to_risk_limits d rl q eq) = sgn d"
    by (rule clamp_sign)
  show "\<bar>clamp_target_to_risk_limits d rl q eq\<bar> \<le> \<bar>d\<bar>"
    by (rule clamp_abs_le)
next
  assume "fst (evaluate_projected_trade rl 0 q eq)"
  then show "fst (evaluate_projected_trade rl (clamp_target_to_risk_limits d rl q eq) q eq)"
    using clamp_zero_or_allowed [of d rl q eq] by auto
next
  assume z: "\<not> fst (evaluate_projected_trade rl 0 q eq)"
  show "clamp_target_to_risk_limits d rl q eq = 0"
    using clamp_zero_or_allowed [of d rl q eq] allowed_zero_fails_all [OF z] by blast
next
  fix k
  assume mono: "\<forall>a b. 0 \<le> a \<and> a \<le> b \<and> b \<le> \<bar>d\<bar>
               \<and> fst (evaluate_projected_trade rl (sgn d * b) q eq)
               \<longrightarrow> fst (evaluate_projected_trade rl (sgn d * a) q eq)"
    and k: "0 \<le> k \<and> k \<le> \<bar>d\<bar> \<and> fst (evaluate_projected_trade rl (sgn d * k) q eq)"
  show "k \<le> \<bar>clamp_target_to_risk_limits d rl q eq\<bar>"
    using clamp_upper [OF mono] k by blast
  have "fst (evaluate_projected_trade rl (sgn d * 0) q eq)"
    using mono k by blast
  then have "fst (evaluate_projected_trade rl 0 q eq)" by simp
  then have "fst (evaluate_projected_trade rl (clamp_target_to_risk_limits d rl q eq) q eq)"
    using clamp_zero_or_allowed [of d rl q eq] by auto
  then show "fst (evaluate_projected_trade rl
                    (sgn d * \<bar>clamp_target_to_risk_limits d rl q eq\<bar>) q eq)"
    using clamp_eq_sgn_abs [of d rl q eq] by simp
qed

theorem clamp_target_properties_witness:
  "fst (evaluate_projected_trade ex_limits 0 ex_quote 10000)
   \<and> clamp_target_to_risk_limits 20 ex_limits ex_quote 10000 = 10
   \<and> \<not> fst (evaluate_projected_trade ex_limits 0 ex_quote 0)
   \<and> clamp_target_to_risk_limits 20 ex_limits ex_quote 0 = 0"
proof -
  let ?r = "clamp_target_to_risk_limits 20 ex_limits ex_quote 10000"
  have z: "fst (evaluate_projected_trade ex_limits 0 ex_quote 10000)"
    by (simp add: ex_allowed_iff)
  have nz: "\<not> fst (evaluate_projected_trade ex_limits 0 ex_quote 0)"
    by (simp add: allowed_iff)
  have mono: "\<forall>a b. 0 \<le> a \<and> a \<le> b \<and> b \<le> \<bar>20\<bar>
          \<and> fst (evaluate_projected_trade ex_limits (sgn 20 * b) ex_quote 10000)
          \<longrightarrow> fst (evaluate_projected_trade ex_limits (sgn 20 * a) ex_quote 10000)"
    by (auto simp add: ex_allowed_iff)
  have ten: "(0::int) \<le> 10 \<and> (10::int) \<le> \<bar>20\<bar>
             \<and> fst (evaluate_projected_trade ex_limits (sgn 20 * 10) ex_quote 10000)"
    by (simp add: ex_allowed_iff)
  note t = clamp_target_properties [of 20 ex_limits ex_quote 10000]
  have "fst (evaluate_projected_trade ex_limits ?r ex_quote 10000)" using t z by blast
  then have "\<bar>?r\<bar> \<le> 10" by (simp add: ex_allowed_iff)
  moreover have "10 \<le> \<bar>?r\<bar>" using t mono ten by blast
  moreover have "?r = 0 \<or> sgn ?r = sgn 20" using t by blast
  ultimately have r: "?r = 10" by (auto simp add: sgn_if split: if_splits)
  have "clamp_target_to_risk_limits 20 ex_limits ex_quote 0 = 0"
    using clamp_target_properties [of 20 ex_limits ex_quote 0] nz by blast
  then show ?thesis using z nz r by blast
qed

section \<open>The risk limiter\<close>

text \<open>
  Claim C6. \<open>trade_allowed\<close> runs its five checks in order and answers with the first
  one that fails: non-positive projected equity, then the capital-at-risk ratio, then
  leverage, then gamma, then vega; when none fails the trade is allowed with an empty
  reason. With non-positive equity the loop's risk check therefore leaves every target
  that does not shrink the position at the opening position and logs a block with the
  reason \<open>Equity exhausted\<close>.
\<close>

theorem trade_allowed_order:
  "(eq \<le> 0 \<longrightarrow> trade_allowed rl c p ntl g v eq = (False, ''Equity exhausted''))
   \<and> (0 < eq \<and> \<bar>of_int c * p * 100\<bar> / eq > max_capital_at_risk rl \<longrightarrow>
        trade_allowed rl c p ntl g v eq = (False, ''Blocked: capital-at-risk limit breached''))
   \<and> (0 < eq \<and> \<bar>of_int c * p * 100\<bar> / eq \<le> max_capital_at_risk rl
        \<and> ntl / eq > max_leverage rl \<longrightarrow>
        trade_allowed rl c p ntl g v eq = (False, ''Blocked: leverage limit breached''))
   \<and> (0 < eq \<and> \<bar>of_int c * p * 100\<bar> / eq \<le> max_capital_at_risk rl
        \<and> ntl / eq \<le> max_leverage rl \<and> g > max_abs_gamma rl \<longrightarrow>
        trade_allowed rl c p ntl g v eq = (False, ''Blocked: gamma limit breached''))
   \<and> (0 < eq \<and> \<bar>of_int c * p * 100\<bar> / eq \<le> max_capital_at_risk rl
        \<and> ntl / eq \<le> max_leverage rl \<and> g \<le> max_abs_gamma rl \<and> v > max_abs_vega rl \<longrightarrow>
        trade_allowed rl c p ntl g v eq = (False, ''Blocked: vega limit breached''))
   \<and> (0 < eq \<and> \<bar>of_int c * p * 100\<bar> / eq \<le> max_capital_at_risk rl
        \<and> ntl / eq \<le> max_leverage rl \<and> g \<le> max_abs_gamma rl \<and> v \<le> max_abs_vega rl \<longrightarrow>
        trade_allowed rl c p ntl g v eq = (True, ''''))
   \<and> (eq \<le> 0 \<and> \<bar>opening\<bar> \<le> \<bar>target\<bar> \<longrightarrow>
        risk_limit_check rl q eq False target opening
          = (opening, ''Equity exhausted'', Some (RISK_BLOCK ''Equity exhausted'')))"
proof -
  have last: "risk_limit_check rl q eq False target opening
          = (opening, ''Equity exhausted'', Some (RISK_BLOCK ''Equity exhausted''))"
    if "eq \<le> 0" "\<bar>opening\<bar> \<le> \<bar>target\<bar>"
  proof -
    have "clamp_target_to_risk_limits target rl q eq = 0"
      using clamp_all_fail equity_exhausted_blocks [OF that(1)] by blast
    then show ?thesis
      using that by (simp add: risk_limit_check_def equity_exhausted_reason Let_def)
  qed
  show ?thesis
    using last by (simp add: trade_allowed_def Let_def CONTRACT_MULTIPLIER_def)
qed

theorem trade_allowed_order_witness:
  "trade_allowed ex_limits 5 2 1000 5 50 0 = (False, ''Equity exhausted'')
   \<and> trade_allowed ex_limits 20 2 1000 5 50 10000
       = (False, ''Blocked: capital-at-risk limit breached'')
   \<and> trade_allowed ex_limits 5 2 70000 5 50 10000 = (False, ''Blocked: leverage limit breached'')
   \<and> trade_allowed ex_limits 5 2 1000 80 50 10000 = (False, ''Blocked: gamma limit breached'')
   \<and> trade_allowed ex_limits 5 2 1000 5 400 10000 = (False, ''Blocked: vega limit breached'')
   \<and> trade_allowed ex_limits 5 2 1000 5 50 10000 = (True, '''')
   \<and> risk_limit_check ex_limits ex_quote 0 False 5 3
       = (3, ''Equity exhausted'', Some (RISK_BLOCK ''Equity exhausted''))"
  using trade_allowed_order [of 0 ex_limits 5 2 1000 5 50 3 5 ex_quote]
    trade_allowed_order [of 10000 ex_limits 20 2 1000 5 50]
    trade_allowed_order [of 10000 ex_limits 5 2 70000 5 50]
    trade_allowed_order [of 10000 ex_limits 5 2 1000 80 50]
    trade_allowed_order [of 10000 ex_limits 5 2 1000 5 400]
    trade_allowed_order [of 10000 ex_limits 5 2 1000 5 50]
  by (simp add: ex_limits_def)

section \<open>The per-bar risk-limit check\<close>

text \<open>
  Claim C3, as the code has it. When the bar is not a forced flatten and the target fails
  the limiter: a target strictly smaller in magnitude than the opening position is
  executed anyway and \<open>RISK_ALLOW_DERISK\<close> is logged; a target at least as large in
  magnitude as the opening position goes through the clamp, and then either the clamped
  value is strictly larger in magnitude than the opening position, is executed and
  \<open>RISK_CLAMP\<close> is logged, or the opening position is kept and \<open>RISK_BLOCK\<close> is
  logged. A forced flatten passes through unchecked.
\<close>

theorem risk_limit_check_cases:
  assumes "\<not> fst (evaluate_projected_trade rl target q eq)"
  shows "(\<bar>target\<bar> < \<bar>opening\<bar> \<longrightarrow>
            risk_limit_check rl q eq False target opening
              = (target, fst (snd (evaluate_projected_trade rl target q eq)),
                 Some (RISK_ALLOW_DERISK target opening
                         (fst (snd (evaluate_projected_trade rl target q eq))))))
       \<and> (\<bar>opening\<bar> \<le> \<bar>target\<bar>
            \<and> \<bar>opening\<bar> < \<bar>clamp_target_to_risk_limits target rl q eq\<bar> \<longrightarrow>
            risk_limit_check rl q eq False target opening
              = (clamp_target_to_risk_limits target rl q eq, '''',
                 Some (RISK_CLAMP target (clamp_target_to_risk_limits target rl q eq)
                         (fst (snd (evaluate_projected_trade rl target q eq))))))
       \<and> (\<bar>opening\<bar> \<le> \<bar>target\<bar>
            \<and> \<bar>clamp_target_to_risk_limits target rl q eq\<bar> \<le> \<bar>opening\<bar> \<longrightarrow>
            risk_limit_check rl q eq False target opening
              = (opening, fst (snd (evaluate_projected_trade rl target q eq)),
                 Some (RISK_BLOCK (fst (snd (evaluate_projected_trade rl target q eq))))))
       \<and> risk_limit_check rl q eq True target opening = (target, '''', None)"
  using assms
  by (cases "evaluate_projected_trade rl target q eq")
     (auto simp add: risk_limit_check_def Let_def)

theorem risk_limit_check_cases_witness:
  "\<not> fst (evaluate_projected_trade ex_limits 12 ex_quote 10000)
   \<and> risk_limit_check ex_limits ex_quote 10000 False 12 15
       = (12, ''Blocked: capital-at-risk limit breached'',
          Some (RISK_ALLOW_DERISK 12 15 ''Blocked: capital-at-risk limit breached''))
   \<and> risk_limit_check ex_limits ex_quote 10000 False 20 4
       = (10, '''', Some (RISK_CLAMP 20 10 ''Blocked: capital-at-risk limit breached''))
   \<and> risk_limit_check ex_limits ex_quote 10000 False 20 10
       = (10, ''Blocked: capital-at-risk limit breached'',
          Some (RISK_BLOCK ''Blocked: capital-at-risk limit breached''))"
proof -
  have f12: "\<not> fst (evaluate_projected_trade ex_limits 12 ex_quote 10000)"
    and f20: "\<not> fst (evaluate_projected_trade ex_limits 20 ex_quote 10000)"
    by (simp_all add: ex_allowed_iff)
  have r12: "fst (snd (evaluate_projected_trade ex_limits 12 ex_quote 10000))
           = ''Blocked: capital-at-risk limit breached''"
    and r20: "fst (snd (evaluate_projected_trade ex_limits 20 ex_quote 10000))
           = ''Blocked: capital-at-risk limit breached''"
    by (rule ex_reason_car, simp)+
  have c: "clamp_target_to_risk_limits 20 ex_limits ex_quote 10000 = 10"
    by (rule ex_clamp_20)
  show ?thesis
    using f12 risk_limit_check_cases [OF f12, of 15] risk_limit_check_cases [OF f20, of 4]
      risk_limit_check_cases [OF f20, of 10] r12 r20 c
    by simp
qed

text \<open>
  The claim as worded lets a target of the same magnitude as the opening position through
  as a de-risking trade. The code does not: holding 20 contracts that no longer fit the
  capital-at-risk budget, with a target of 20, is logged as a block.
\<close>

theorem risk_limit_check_equal_magnitude_counterexample:
  "\<not> fst (evaluate_projected_trade ex_limits 20 ex_quote 10000)
   \<and> \<bar>20 :: int\<bar> \<le> \<bar>20\<bar>
   \<and> risk_limit_check ex_limits ex_quote 10000 False 20 20
       = (20, ''Blocked: capital-at-risk limit breached'',
          Some (RISK_BLOCK ''Blocked: capital-at-risk limit breached''))
   \<and> risk_limit_check ex_limits ex_quote 10000 False 20 20
       \<noteq> (20, ''Blocked: capital-at-risk limit breached'',
          Some (RISK_ALLOW_DERISK 20 20 ''Blocked: capital-at-risk limit breached''))"
proof -
  have f: "\<not> fst (evaluate_projected_trade ex_limits 20 ex_quote 10000)"
    by (simp add: ex_allowed_iff)
  have c: "\<bar>clamp_target_to_risk_limits 20 ex_limits ex_quote 10000\<bar> \<le> \<bar>20\<bar>"
    by (rule clamp_abs_le)
  have r: "fst (snd (evaluate_projected_trade ex_limits 20 ex_quote 10000))
           = ''Blocked: capital-at-risk limit breached''"
    by (rule ex_reason_car) simp
  have "risk_limit_check ex_limits ex_quote 10000 False 20 20
       = (20, ''Blocked: capital-at-risk limit breached'',
          Some (RISK_BLOCK ''Blocked: capital-at-risk limit breached''))"
    using f c r
    by (cases "evaluate_projected_trade ex_limits 20 ex_quote 10000")
       (auto simp add: risk_limit_check_def Let_def)
  then show ?thesis using f by simp
qed

section \<open>The chop score\<close>

text \<open>
  Claim C5, as the code has it. The per-bar metric computation never raises: every
  division it makes has a non-zero divisor. Its chop score is the rolling mean of the
  absolute returns over the chop window divided by the absolute value of the rolling
  mean of the returns over the same window when that absolute value is above
  \<open>1e-12\<close>, and plus infinity when it is \<open>1e-12\<close> or less.
\<close>

theorem chop_score_guarded:
  "\<exists>m self' chop avg.
     base_metrics self iv rvs spot prices rets = Inr (m, self')
     \<and> rolling_mean (map abs rets) (long_chop_window (config self)) = Inr chop
     \<and> rolling_mean rets (long_chop_window (config self)) = Inr avg
     \<and> m_choppiness m = chop
     \<and> m_chop_score m = (if \<bar>avg\<bar> > 1 / 10 ^ 12 then Fin (chop / \<bar>avg\<bar>) else PosInf)"
proof -
  obtain rv_s rv_m trend chop avg where
    "rolling_mean rvs (rv_short_window (config self)) = Inr rv_s"
    "rolling_mean rvs (rv_medium_window (config self)) = Inr rv_m"
    "safe_price_trend_strength spot prices (trend_window (config self)) = Inr trend"
    "rolling_mean (map abs rets) (long_chop_window (config self)) = Inr chop"
    "rolling_mean rets (long_chop_window (config self)) = Inr avg"
    using rolling_mean_total safe_price_trend_strength_total by metis
  then show ?thesis
    using base_metrics_eq [of rvs self _ _ spot prices _ rets] by auto
qed

text \<open>
  The claim as worded returns the quotient for a denominator of exactly \<open>1e-12\<close>. The
  code's test is \<open>denom > 1e-12\<close>: a single return of \<open>1e-12\<close> gives a denominator
  that is not below \<open>1e-12\<close>, and the chop score is plus infinity, not the quotient 1.
\<close>

theorem chop_score_boundary_counterexample:
  "rolling_mean [1 / 10 ^ 12] 30 = Inr (1 / 10 ^ 12)
   \<and> rolling_mean (map abs [1 / 10 ^ 12]) 30 = Inr (1 / 10 ^ 12)
   \<and> \<not> \<bar>1 / 10 ^ 12 :: real\<bar> < 1 / 10 ^ 12
   \<and> (\<exists>m self'.
        base_metrics (init_engine Long default_signal_config) (20 / 100) [] 100 []
          [1 / 10 ^ 12] = Inr (m, self')
        \<and> m_chop_score m = PosInf
        \<and> m_chop_score m \<noteq> Fin ((1 / 10 ^ 12) / \<bar>1 / 10 ^ 12\<bar>))"
proof -
  have r: "rolling_mean [x] w = Inr x" for x w
    by (simp add: rolling_mean_eq max_def min_def)
  have e: "rolling_mean [] w = Inr 0" for w
    by (simp add: rolling_mean_def)
  have t: "safe_price_trend_strength 100 [] w = Inr 0" for w
    by (simp add: safe_price_trend_strength_def e err_bind_def)
  show ?thesis
    using base_metrics_eq [of "[]" "init_engine Long default_signal_config" 0 0 100 "[]" 0
        "[1 / 10 ^ 12]" "1 / 10 ^ 12" "1 / 10 ^ 12" "20 / 100"]
    by (simp add: r e t init_engine_def default_signal_config_def)
qed

section \<open>Adaptive entry when both sides persist\<close>




section \<open>The one-bar execution delay\<close>



section \<open>No direct sign flip in adaptive mode\<close>



section \<open>The short-mode cooldown\<close>

text \<open>
  Claim C8. In every run of short mode that completes: the reported cooldown counter is
  never negative, and a bar that reports a positive counter has stance \<open>FLAT\<close>; a bar whose stance is \<open>FLAT\<close> right after a bar whose stance was
  not reports a counter equal to \<open>cooldown_bars\<close>, when that is positive; and after a
  bar that reports a positive counter the next bar's stance is \<open>FLAT\<close>, whatever its
  filters say, and its counter is one less.
\<close>

theorem short_cooldown:
  assumes "run_single_mode Short a signal_config market_data = Inr (st, rows)"
  shows "(\<forall>t. t < length rows \<longrightarrow>
            0 \<le> r_cooldown_remaining (rows ! t)
            \<and> (r_cooldown_remaining (rows ! t) > 0 \<longrightarrow> r_stance (rows ! t) = FLAT))
       \<and> (\<forall>t. Suc t < length rows \<longrightarrow>
            (r_stance (rows ! t) \<noteq> FLAT \<and> r_stance (rows ! Suc t) = FLAT
               \<and> cooldown_bars signal_config > 0
               \<longrightarrow> r_cooldown_remaining (rows ! Suc t) = cooldown_bars signal_config)
            \<and> (r_cooldown_remaining (rows ! t) > 0
               \<longrightarrow> r_stance (rows ! Suc t) = FLAT
                   \<and> r_cooldown_remaining (rows ! Suc t) = r_cooldown_remaining (rows ! t) - 1))"
proof -
  define Inv where "Inv = (\<lambda>s :: sim_state. mode (signal_engine s) = Short
       \<and> config (signal_engine s) = signal_config
       \<and> 0 \<le> cooldown_remaining (signal_engine s)
       \<and> (cooldown_remaining (signal_engine s) > 0 \<longrightarrow> prev_stance (signal_engine s) = FLAT)
       \<and> (cooldown_remaining (signal_engine s) > 0 \<or> prev_stance (signal_engine s) \<noteq> FLAT
            \<longrightarrow> min_warmup_bars signal_config \<le> int (length (spot_history s))))"
  define Pre where "Pre = (\<lambda>(s :: sim_state) (r :: step_row). 0 \<le> r_cooldown_remaining r
       \<and> (r_cooldown_remaining r > 0 \<longrightarrow> r_stance r = FLAT)
       \<and> (cooldown_remaining (signal_engine s) > 0
            \<longrightarrow> r_stance r = FLAT
                \<and> r_cooldown_remaining r = cooldown_remaining (signal_engine s) - 1)
       \<and> (prev_stance (signal_engine s) \<noteq> FLAT \<and> r_stance r = FLAT
              \<and> cooldown_bars signal_config > 0
            \<longrightarrow> r_cooldown_remaining r = cooldown_bars signal_config))"
  define Post where "Post = (\<lambda>(r :: step_row) (s :: sim_state). r_stance r = prev_stance (signal_engine s)
       \<and> r_cooldown_remaining r = cooldown_remaining (signal_engine s))"
  define Link where "Link = (\<lambda>(r :: step_row) (r' :: step_row). 0 \<le> r_cooldown_remaining r'
       \<and> (r_cooldown_remaining r' > 0 \<longrightarrow> r_stance r' = FLAT)
       \<and> (r_cooldown_remaining r > 0
            \<longrightarrow> r_stance r' = FLAT \<and> r_cooldown_remaining r' = r_cooldown_remaining r - 1)
       \<and> (r_stance r \<noteq> FLAT \<and> r_stance r' = FLAT \<and> cooldown_bars signal_config > 0
            \<longrightarrow> r_cooldown_remaining r' = cooldown_bars signal_config))"
  have run: "run_loop Short a (init_state Short signal_config) market_data = Inr (st, rows)"
    using assms by (simp add: run_single_mode_def)
  have step: "Inv s' \<and> Pre s r \<and> Post r s'"
    if inv: "Inv s" and b: "bar_step Short a s row = Inr (s', r)" for s row s' r
  proof -
    have i: "mode (signal_engine s) = Short" "config (signal_engine s) = signal_config"
      "0 \<le> cooldown_remaining (signal_engine s)"
      "cooldown_remaining (signal_engine s) > 0 \<longrightarrow> prev_stance (signal_engine s) = FLAT"
      "cooldown_remaining (signal_engine s) > 0 \<or> prev_stance (signal_engine s) \<noteq> FLAT
         \<longrightarrow> min_warmup_bars signal_config \<le> int (length (spot_history s))"
      using inv unfolding Inv_def by blast+
    note t = short_step [OF i b]
    have "Inv s'" unfolding Inv_def using t(1,2,3,4,5) by blast
    moreover have "Pre s r" unfolding Pre_def using t(3,4,6,7,8,9) by simp
    moreover have "Post r s'" unfolding Post_def using t(6,7) by blast
    ultimately show ?thesis by blast
  qed
  have link: "Link r r'" if "Post r s'" "Pre s' r'" for r s' r'
    using that unfolding Link_def Post_def Pre_def by simp
  have inv0: "Inv (init_state Short signal_config)"
    unfolding Inv_def by (simp add: init_state_def init_engine_def)
  have chain: "(rows \<noteq> [] \<longrightarrow> Pre (init_state Short signal_config) (hd rows))
         \<and> (\<forall>t. Suc t < length rows \<longrightarrow> Link (rows ! t) (rows ! Suc t))"
    using step link inv0 run by (rule run_loop_chain)
  have nonneg: "0 \<le> r_cooldown_remaining (rows ! t)
       \<and> (r_cooldown_remaining (rows ! t) > 0 \<longrightarrow> r_stance (rows ! t) = FLAT)"
    if "t < length rows" for t
  proof (cases t)
    case 0
    then have "rows \<noteq> []" using that by auto
    then have "Pre (init_state Short signal_config) (rows ! 0)"
      using chain by (simp add: hd_conv_nth)
    then show ?thesis using 0 unfolding Pre_def by simp
  next
    case (Suc k)
    then have "Link (rows ! k) (rows ! Suc k)" using chain that by simp
    then show ?thesis using Suc unfolding Link_def by simp
  qed
  have links: "Link (rows ! t) (rows ! Suc t)" if "Suc t < length rows" for t
    using chain that by simp
  show ?thesis
    using nonneg links unfolding Link_def by blast
qed

theorem short_cooldown_witness:
  "\<exists>st rows.
     run_single_mode Short default_args cooldown_config
       [ex_bar, ex_bar, low_iv_bar, ex_bar] = Inr (st, rows)
     \<and> length rows = 4
     \<and> r_stance (rows ! 1) = SHORT_VOL
     \<and> r_stance (rows ! 2) = FLAT \<and> r_cooldown_remaining (rows ! 2) = 3
     \<and> r_stance (rows ! 3) = FLAT \<and> r_cooldown_remaining (rows ! 3) = 2"
proof -
  obtain st rows where
    run: "run_single_mode Short default_args cooldown_config
       [ex_bar, ex_bar, low_iv_bar, ex_bar] = Inr (st, rows)"
    and len: "length rows = 4"
    and s1: "r_stance (rows ! 1) = SHORT_VOL" and s2: "r_stance (rows ! 2) = FLAT"
    using cooldown_run by blast
  note t = short_cooldown [OF run]
  have nx: "\<And>t. Suc t < length rows \<Longrightarrow>
            (r_stance (rows ! t) \<noteq> FLAT \<and> r_stance (rows ! Suc t) = FLAT
               \<and> cooldown_bars cooldown_config > 0
               \<longrightarrow> r_cooldown_remaining (rows ! Suc t) = cooldown_bars cooldown_config)
            \<and> (r_cooldown_remaining (rows ! t) > 0
               \<longrightarrow> r_stance (rows ! Suc t) = FLAT
                   \<and> r_cooldown_remaining (rows ! Suc t) = r_cooldown_remaining (rows ! t) - 1)"
    using t by blast
  have c2: "r_cooldown_remaining (rows ! 2) = 3"
    using nx [of 1] len s1 s2 by (simp add: numeral_2_eq_2)
  have c3: "r_stance (rows ! 3) = FLAT \<and> r_cooldown_remaining (rows ! 3) = 2"
    using nx [of 2] len c2 by (simp add: numeral_3_eq_3)
  show ?thesis
  proof (intro exI conjI)
    show "run_single_mode Short default_args cooldown_config
       [ex_bar, ex_bar, low_iv_bar, ex_bar] = Inr (st, rows)" by (rule run)
    show "length rows = 4" by (rule len)
    show "r_stance (rows ! 1) = SHORT_VOL" by (rule s1)
    show "r_stance (rows ! 2) = FLAT" by (rule s2)
    show "r_cooldown_remaining (rows ! 2) = 3" by (rule c2)
    show "r_stance (rows ! 3) = FLAT" using c3 by (rule conjunct1)
    show "r_cooldown_remaining (rows ! 3) = 2" using c3 by (rule conjunct2)
  qed
qed

end
